theory Spec2Isabelle
  imports Complex_Main "HOL-Library.Multiset" "HOL-Library.List_Lexorder" "HOL-Library.Char_ord"
begin

text \<open>
  A model of the plant configuration store of \<^verbatim>\<open>src/api/app.py\<close>: the handlers
  \<^verbatim>\<open>create_plant\<close>, \<^verbatim>\<open>update_plant\<close>, \<^verbatim>\<open>get_plants\<close> and \<^verbatim>\<open>migrate_from_localstorage\<close> as functions
  from the committed database and the parsed request body to the committed database and
  the response. Flask, the JSON parser and the clock are outside: a handler takes the
  value of \<^verbatim>\<open>request.get_json()\<close> and the value of \<^verbatim>\<open>int(time.time() * 1000)\<close> as
  arguments. Of SQLite the model has what the four statements of the handlers need: the
  table with its \<^verbatim>\<open>NOT NULL\<close> and \<^verbatim>\<open>UNIQUE(name)\<close> constraints, \<^verbatim>\<open>AUTOINCREMENT\<close>, statements
  that fail as a whole, and a connection whose uncommitted work is lost when it is closed.
\<close>

section \<open>Values\<close>

text \<open>
  The handlers of \<^verbatim>\<open>src/api/app.py\<close> receive whatever \<^verbatim>\<open>request.get_json()\<close>
  returns: \<^verbatim>\<open>None\<close>, a bool, an int, a float, a str, a list or a dict with string keys.
  A dict is an association list read with \<open>map_of\<close>. A str is the list of the bytes of
  its UTF-8 encoding, which is what SQLite stores and compares; a lone surrogate (the
  parser takes an escaped one, U+D800 to U+DFFF) is written as the three bytes that
  encoding scheme gives it, \<^verbatim>\<open>ED\<close> and then a byte from \<^verbatim>\<open>A0\<close> on. A float is the real number it
  denotes or one of the two infinities (floats are only stored and compared, never
  computed with), or it is NaN: the parser takes the tokens \<^verbatim>\<open>NaN\<close>, \<^verbatim>\<open>Infinity\<close> and
  \<^verbatim>\<open>-Infinity\<close> as well.
\<close>

datatype xreal = MInf | Fin real | PInf

fun xreal_le :: "xreal \<Rightarrow> xreal \<Rightarrow> bool" where
  "xreal_le MInf y = True"
| "xreal_le (Fin a) MInf = False"
| "xreal_le (Fin a) (Fin b) = (a \<le> b)"
| "xreal_le (Fin a) PInf = True"
| "xreal_le PInf PInf = True"
| "xreal_le PInf y = False"

datatype json =
    JNull
  | JBool bool
  | JInt int
  | JFloat xreal
  | JNaN
  | JStr string
  | JArr "json list"
  | JObj "(string \<times> json) list"

text \<open>
  What SQLite holds in a cell: NULL, an INTEGER, a REAL or a TEXT. A REAL can be infinite;
  it is never NaN.
\<close>

datatype sqlval = SNull | SInt int | SReal xreal | SText string

text \<open>The columns of table \<^verbatim>\<open>plants\<close> other than \<^verbatim>\<open>id\<close>, in the order of \<^verbatim>\<open>init_database\<close>.\<close>

datatype column =
    c_name | c_timestamp | c_axiom | c_rules | c_iterations | c_angle
  | c_angle_variation | c_length_variation | c_length_tapering
  | c_leaf_probability | c_leaf_generation_threshold
  | c_length | c_thickness | c_tapering

datatype coltype = INTEGER | REAL | TEXT

fun col_type :: "column \<Rightarrow> coltype" where
  "col_type c_name = TEXT"
| "col_type c_timestamp = INTEGER"
| "col_type c_axiom = TEXT"
| "col_type c_rules = TEXT"
| "col_type c_iterations = INTEGER"
| "col_type c_angle = REAL"
| "col_type c_angle_variation = REAL"
| "col_type c_length_variation = REAL"
| "col_type c_length_tapering = REAL"
| "col_type c_leaf_probability = REAL"
| "col_type c_leaf_generation_threshold = INTEGER"
| "col_type c_length = REAL"
| "col_type c_thickness = REAL"
| "col_type c_tapering = REAL"

text \<open>The columns declared \<^verbatim>\<open>NOT NULL\<close>, in table order.\<close>

definition not_null_columns :: "column list" where
  "not_null_columns = [c_name, c_timestamp, c_axiom, c_rules, c_iterations, c_angle]"

fun fits :: "coltype \<Rightarrow> sqlval \<Rightarrow> bool" where
  "fits _ SNull = True"
| "fits INTEGER (SInt _) = True"
| "fits REAL (SReal _) = True"
| "fits TEXT (SText _) = True"
| "fits _ _ = False"

text \<open>
  The value SQLite stores in column \<open>c\<close> when it is given \<open>v\<close>. NULL and a value that
  already has the column's declared type are stored as they are. Any other value goes
  through SQLite's type affinity (a number into a TEXT column becomes its text, a numeric
  text into a numeric column becomes a number, ...). That conversion is code of SQLite,
  not of this repository: it is the parameter \<open>aff\<close> of every operation below.
\<close>

definition stored :: "(column \<Rightarrow> sqlval \<Rightarrow> sqlval) \<Rightarrow> column \<Rightarrow> sqlval \<Rightarrow> sqlval" where
  "stored aff c v = (if fits (col_type c) v then v else aff c v)"

text \<open>SQL equality as used by \<^verbatim>\<open>WHERE name = ?\<close> and by \<^verbatim>\<open>UNIQUE(name)\<close>: NULL equals nothing.\<close>

fun sql_eq :: "sqlval \<Rightarrow> sqlval \<Rightarrow> bool" where
  "sql_eq (SInt i) (SInt j) = (i = j)"
| "sql_eq (SInt i) (SReal r) = (Fin (of_int i) = r)"
| "sql_eq (SReal r) (SInt j) = (r = Fin (of_int j))"
| "sql_eq (SReal r) (SReal s) = (r = s)"
| "sql_eq (SText s) (SText t) = (s = t)"
| "sql_eq _ _ = False"

text \<open>
  The order of \<^verbatim>\<open>ORDER BY\<close>: NULL first, then numbers by value, then texts byte by byte.
\<close>

fun sql_le :: "sqlval \<Rightarrow> sqlval \<Rightarrow> bool" where
  "sql_le SNull _ = True"
| "sql_le (SInt i) SNull = False"
| "sql_le (SReal r) SNull = False"
| "sql_le (SText s) SNull = False"
| "sql_le (SInt i) (SInt j) = (i \<le> j)"
| "sql_le (SInt i) (SReal r) = xreal_le (Fin (of_int i)) r"
| "sql_le (SReal r) (SInt j) = xreal_le r (Fin (of_int j))"
| "sql_le (SReal r) (SReal s) = xreal_le r s"
| "sql_le (SInt i) (SText t) = True"
| "sql_le (SReal r) (SText t) = True"
| "sql_le (SText s) (SInt j) = False"
| "sql_le (SText s) (SReal r) = False"
| "sql_le (SText s) (SText t) = (s \<le> t)"

definition sql_less :: "sqlval \<Rightarrow> sqlval \<Rightarrow> bool" where
  "sql_less a b = (sql_le a b \<and> \<not> sql_le b a)"

section \<open>Python\<close>

datatype constr = NotNull column | UniqueName

text \<open>
  The exceptions the handlers can meet. \<open>BindError\<close> stands for what \<^verbatim>\<open>conn.execute\<close>
  raises for a parameter it cannot bind (a list, a dict, an int outside 64 bits, a str
  with a lone surrogate): none of them is an \<^verbatim>\<open>sqlite3.IntegrityError\<close>.
\<close>

datatype exn = IntegrityError constr | BindError | TypeError | AttributeError | KeyError

text \<open>\<^verbatim>\<open>not data\<close> is \<open>\<not> truthy data\<close>.\<close>

fun truthy :: "json \<Rightarrow> bool" where
  "truthy JNull = False"
| "truthy (JBool b) = b"
| "truthy (JInt i) = (i \<noteq> 0)"
| "truthy (JFloat r) = (r \<noteq> Fin 0)"
| "truthy JNaN = True"
| "truthy (JStr s) = (s \<noteq> [])"
| "truthy (JArr xs) = (xs \<noteq> [])"
| "truthy (JObj kvs) = (kvs \<noteq> [])"

fun starts_with :: "string \<Rightarrow> string \<Rightarrow> bool" where
  "starts_with [] s = True"
| "starts_with (k # ks) [] = False"
| "starts_with (k # ks) (x # xs) = (k = x \<and> starts_with ks xs)"

fun is_substring :: "string \<Rightarrow> string \<Rightarrow> bool" where
  "is_substring k [] = (k = [])"
| "is_substring k (x # xs) = (starts_with k (x # xs) \<or> is_substring k xs)"

text \<open>\<^verbatim>\<open>k in data\<close> for a string \<open>k\<close>: a key of a dict, an element of a list, a substring of a str.\<close>

fun py_in :: "string \<Rightarrow> json \<Rightarrow> exn + bool" where
  "py_in k (JObj kvs) = Inr (map_of kvs k \<noteq> None)"
| "py_in k (JArr xs) = Inr (List.member xs (JStr k))"
| "py_in k (JStr s) = Inr (is_substring k s)"
| "py_in k _ = Inl TypeError"

text \<open>\<^verbatim>\<open>data[k]\<close> for a string \<open>k\<close>.\<close>

fun py_index :: "json \<Rightarrow> string \<Rightarrow> exn + json" where
  "py_index (JObj kvs) k = (case map_of kvs k of None \<Rightarrow> Inl KeyError | Some v \<Rightarrow> Inr v)"
| "py_index _ k = Inl TypeError"

text \<open>\<^verbatim>\<open>d.get(k, dflt)\<close> on a dict, and on any value (only a dict has \<^verbatim>\<open>get\<close>).\<close>

definition dict_get :: "(string \<times> json) list \<Rightarrow> string \<Rightarrow> json \<Rightarrow> json" where
  "dict_get kvs k dflt = (case map_of kvs k of None \<Rightarrow> dflt | Some v \<Rightarrow> v)"

fun py_get :: "json \<Rightarrow> string \<Rightarrow> json \<Rightarrow> exn + json" where
  "py_get (JObj kvs) k dflt = Inr (dict_get kvs k dflt)"
| "py_get _ k dflt = Inl AttributeError"

text \<open>A tuple of expressions is evaluated left to right; the first exception wins.\<close>

fun sequence_err :: "('e + 'a) list \<Rightarrow> 'e + 'a list" where
  "sequence_err [] = Inr []"
| "sequence_err (Inl e # ms) = Inl e"
| "sequence_err (Inr x # ms) = (case sequence_err ms of Inl e \<Rightarrow> Inl e | Inr xs \<Rightarrow> Inr (x # xs))"

section \<open>sqlite3\<close>

text \<open>
  How the \<^verbatim>\<open>sqlite3\<close> module binds a Python value to a \<^verbatim>\<open>?\<close>: \<^verbatim>\<open>None\<close> is NULL, a bool is
  the integer 0 or 1, an int must fit 64 signed bits, a list or a dict cannot be bound,
  and a str is bound as its UTF-8 encoding, which a str with a lone surrogate does not
  have (\<^verbatim>\<open>UnicodeEncodeError\<close>).
  The float NaN is bound as NULL: it is not \<^verbatim>\<open>None\<close> for Python and it is NULL for SQLite.
  \<open>sql_of\<close> is the value bound; it is only used on what is \<open>bindable\<close>.
\<close>

fun has_surrogate :: "string \<Rightarrow> bool" where
  "has_surrogate (a # b # s) =
     ((of_char a = (237::nat) \<and> (160::nat) \<le> of_char b) \<or> has_surrogate (b # s))"
| "has_surrogate _ = False"

fun bindable :: "json \<Rightarrow> bool" where
  "bindable (JInt i) = (- (2 ^ 63) \<le> i \<and> i < 2 ^ 63)"
| "bindable (JStr s) = (\<not> has_surrogate s)"
| "bindable (JArr xs) = False"
| "bindable (JObj kvs) = False"
| "bindable _ = True"

fun sql_of :: "json \<Rightarrow> sqlval" where
  "sql_of JNull = SNull"
| "sql_of (JBool b) = SInt (if b then 1 else 0)"
| "sql_of (JInt i) = SInt i"
| "sql_of (JFloat r) = SReal r"
| "sql_of JNaN = SNull"
| "sql_of (JStr s) = SText s"
| "sql_of (JArr xs) = SNull"
| "sql_of (JObj kvs) = SNull"

definition bind_param :: "json \<Rightarrow> exn + sqlval" where
  "bind_param j = (if bindable j then Inr (sql_of j) else Inl BindError)"

definition bind_all :: "json list \<Rightarrow> exn + sqlval list" where
  "bind_all js = sequence_err (map bind_param js)"

text \<open>A row (\<^verbatim>\<open>sqlite3.Row\<close>) is its \<^verbatim>\<open>id\<close> and a value for each other column.\<close>

record row =
  rid :: int
  cells :: "column \<Rightarrow> sqlval"

text \<open>
  The database: the rows of \<^verbatim>\<open>plants\<close> in rowid order and the largest id ever given out
  (\<^verbatim>\<open>AUTOINCREMENT\<close> keeps it in \<^verbatim>\<open>sqlite_sequence\<close>). A handler returns the database as
  committed: a handler that raises before \<^verbatim>\<open>conn.commit()\<close> leaves the one it was given,
  since \<^verbatim>\<open>get_db_connection\<close> closes the connection without committing. Ids are
  unbounded integers: the table is taken to be far from the id \<open>2\<^sup>6\<^sup>3 - 1\<close> after which
  SQLite has no further id to give, which no run of the handlers reaches.
\<close>

record db =
  plants :: "row list"
  last_id :: int

definition empty_db :: db where
  "empty_db = \<lparr>plants = [], last_id = 0\<rparr>"

text \<open>Positional parameters: the i-th value belongs to the i-th column named in the statement.\<close>

definition assign :: "column list \<Rightarrow> sqlval list \<Rightarrow> column \<Rightarrow> sqlval" where
  "assign cols vals c = (case map_of (zip cols vals) c of None \<Rightarrow> SNull | Some v \<Rightarrow> v)"

definition insert_columns :: "column list" where
  "insert_columns =
     [c_name, c_timestamp, c_axiom, c_rules, c_iterations, c_angle,
      c_angle_variation, c_length_variation, c_length_tapering,
      c_leaf_probability, c_leaf_generation_threshold,
      c_length, c_thickness, c_tapering]"

definition name_is :: "sqlval \<Rightarrow> row \<Rightarrow> bool" where
  "name_is key r = sql_eq (cells r c_name) key"

definition next_id :: "db \<Rightarrow> int" where
  "next_id d = fold max (map rid (plants d)) (last_id d) + 1"

text \<open>
  \<^verbatim>\<open>INSERT INTO plants (name, timestamp, ...) VALUES (?, ..., ?)\<close>. Every column is given, so
  no \<^verbatim>\<open>DEFAULT\<close> of the table applies. A NULL in a \<^verbatim>\<open>NOT NULL\<close> column or a name that a
  row already has raises \<^verbatim>\<open>sqlite3.IntegrityError\<close> and changes nothing. SQLite looks at
  \<^verbatim>\<open>NOT NULL\<close> first, column by column, then at \<^verbatim>\<open>UNIQUE\<close>. \<^verbatim>\<open>NOT NULL\<close> is tested on the
  parameter: the conversion of a value never makes it NULL or takes NULL away.
\<close>

definition sql_insert :: "(column \<Rightarrow> sqlval \<Rightarrow> sqlval) \<Rightarrow> db \<Rightarrow> sqlval list \<Rightarrow> exn + db" where
  "sql_insert aff d vals =
     (let p = assign insert_columns vals in
      case find (\<lambda>c. p c = SNull) not_null_columns of
        Some c \<Rightarrow> Inl (IntegrityError (NotNull c))
      | None \<Rightarrow>
          if list_ex (name_is (stored aff c_name (p c_name))) (plants d)
          then Inl (IntegrityError UniqueName)
          else Inr \<lparr>plants = plants d @ [\<lparr>rid = next_id d, cells = (\<lambda>c. stored aff c (p c))\<rparr>],
                    last_id = next_id d\<rparr>)"

text \<open>
  \<^verbatim>\<open>UPDATE plants SET timestamp = ?, axiom = ?, ..., tapering = ? WHERE name = ?\<close>:
  thirteen values to set, then the name looked for. The constraints are tested on the rows
  that are updated: with no row of that name a NULL harms nothing.
\<close>

definition replace_columns :: "column list" where
  "replace_columns =
     [c_timestamp, c_axiom, c_rules, c_iterations, c_angle,
      c_angle_variation, c_length_variation, c_length_tapering,
      c_leaf_probability, c_leaf_generation_threshold,
      c_length, c_thickness, c_tapering]"

definition replace_row :: "(column \<Rightarrow> sqlval \<Rightarrow> sqlval) \<Rightarrow> (column \<Rightarrow> sqlval) \<Rightarrow> row \<Rightarrow> row" where
  "replace_row aff p r =
     r\<lparr>cells := (\<lambda>c. if c = c_name then cells r c_name else stored aff c (p c))\<rparr>"

definition sql_replace_by_name :: "(column \<Rightarrow> sqlval \<Rightarrow> sqlval) \<Rightarrow> db \<Rightarrow> sqlval list \<Rightarrow> exn + db" where
  "sql_replace_by_name aff d vals =
     (let p = assign replace_columns (butlast vals);
          key = stored aff c_name (last vals) in
      case find (\<lambda>c. c \<noteq> c_name \<and> p c = SNull) not_null_columns of
        Some c \<Rightarrow>
          if list_ex (name_is key) (plants d) then Inl (IntegrityError (NotNull c))
          else Inr d
      | None \<Rightarrow>
          Inr (d\<lparr>plants := map (\<lambda>r. if name_is key r then replace_row aff p r else r) (plants d)\<rparr>))"

text \<open>
  \<^verbatim>\<open>UPDATE plants SET name = COALESCE(?, name), timestamp = ?, axiom = COALESCE(?, axiom), ...
  WHERE id = ?\<close>: a NULL parameter keeps the column (a stored value is stored again as it
  is), \<^verbatim>\<open>timestamp\<close> is set outright. The new name must not be the name of another row.
\<close>

definition merge_row :: "(column \<Rightarrow> sqlval \<Rightarrow> sqlval) \<Rightarrow> (column \<Rightarrow> sqlval) \<Rightarrow> row \<Rightarrow> row" where
  "merge_row aff p r =
     r\<lparr>cells := (\<lambda>c. if c \<noteq> c_timestamp \<and> p c = SNull then cells r c else stored aff c (p c))\<rparr>"

definition sql_merge_by_id :: "(column \<Rightarrow> sqlval \<Rightarrow> sqlval) \<Rightarrow> db \<Rightarrow> int \<Rightarrow> sqlval list \<Rightarrow> exn + db" where
  "sql_merge_by_id aff d plant_id vals =
     (let p = assign insert_columns vals in
      if list_ex (\<lambda>r. rid r = plant_id) (plants d) \<and> p c_timestamp = SNull
      then Inl (IntegrityError (NotNull c_timestamp))
      else if list_ex (\<lambda>r. rid r = plant_id \<and>
                 list_ex (\<lambda>q. rid q \<noteq> plant_id \<and> name_is (cells (merge_row aff p r) c_name) q) (plants d))
               (plants d)
      then Inl (IntegrityError UniqueName)
      else Inr (d\<lparr>plants := map (\<lambda>r. if rid r = plant_id then merge_row aff p r else r) (plants d)\<rparr>))"

text \<open>
  \<^verbatim>\<open>ORDER BY timestamp DESC\<close>: the rows sorted by decreasing timestamp. SQL leaves the
  order of rows with equal timestamps open; here they keep their table order.
\<close>

fun insert_desc :: "row \<Rightarrow> row list \<Rightarrow> row list" where
  "insert_desc r [] = [r]"
| "insert_desc r (x # xs) =
     (if sql_le (cells x c_timestamp) (cells r c_timestamp) then r # x # xs
      else x # insert_desc r xs)"

definition order_by_timestamp_desc :: "row list \<Rightarrow> row list" where
  "order_by_timestamp_desc rs = foldr insert_desc rs []"

definition select_by_name :: "(column \<Rightarrow> sqlval \<Rightarrow> sqlval) \<Rightarrow> db \<Rightarrow> sqlval \<Rightarrow> row list" where
  "select_by_name aff d v = filter (name_is (stored aff c_name v)) (plants d)"

definition select_by_id :: "db \<Rightarrow> int \<Rightarrow> row list" where
  "select_by_id d plant_id = filter (\<lambda>r. rid r = plant_id) (plants d)"

section \<open>The handlers\<close>

datatype message =
    NoJsonData          \<comment> \<open>\<^verbatim>\<open>"No JSON data provided"\<close>\<close>
  | MissingField string \<comment> \<open>\<^verbatim>\<open>f"Missing required field: {field}"\<close>\<close>
  | NotFound            \<comment> \<open>\<^verbatim>\<open>"Plant not found"\<close>\<close>
  | NoPlantsData        \<comment> \<open>\<^verbatim>\<open>"No plants data provided"\<close>\<close>
  | PlantsNotArray      \<comment> \<open>\<^verbatim>\<open>"Plants data must be an array"\<close>\<close>
  | Exc exn             \<comment> \<open>\<^verbatim>\<open>str(e)\<close> of the exception caught by the handler\<close>

text \<open>The entries of \<^verbatim>\<open>errors\<close> in \<^verbatim>\<open>migrate_from_localstorage\<close>, with the name they quote.\<close>

datatype import_error =
    MissingFields json       \<comment> \<open>\<^verbatim>\<open>f"Missing required fields in plant: {name}"\<close>\<close>
  | AlreadyExists json       \<comment> \<open>\<^verbatim>\<open>f"Plant '{name}' already exists, skipped"\<close>\<close>
  | ProcessingError json exn \<comment> \<open>\<^verbatim>\<open>f"Error processing plant {name}: {str(e)}"\<close>\<close>

datatype body =
    Plant row
  | Plants "row list"
  | Failure message
  | Report nat "import_error list"

text \<open>A response is its HTTP status and its body.\<close>

type_synonym response = "nat \<times> body"

definition required_fields :: "string list" where
  "required_fields = [''name'', ''axiom'', ''rules'', ''iterations'', ''angle'']"

text \<open>
  \<^verbatim>\<open>for field in required_fields: if field not in data: return ...\<close>: the first field that
  is not in \<open>data\<close>, if any.
\<close>

fun first_missing :: "json \<Rightarrow> string list \<Rightarrow> exn + string option" where
  "first_missing data [] = Inr None"
| "first_missing data (f # fs) =
     (case py_in f data of
        Inl e \<Rightarrow> Inl e
      | Inr present \<Rightarrow> if \<not> present then Inr (Some f) else first_missing data fs)"

text \<open>The parameter tuple of the \<^verbatim>\<open>INSERT\<close> of \<^verbatim>\<open>create_plant\<close>.\<close>

definition create_insert_tuple :: "json \<Rightarrow> int \<Rightarrow> (exn + json) list" where
  "create_insert_tuple data timestamp =
     [py_index data ''name'',
      Inr (JInt timestamp),
      py_index data ''axiom'',
      py_index data ''rules'',
      py_index data ''iterations'',
      py_index data ''angle'',
      py_get data ''angleVariation'' (JInt 0),
      py_get data ''lengthVariation'' (JInt 0),
      py_get data ''lengthTapering'' (JFloat (Fin 1.0)),
      py_get data ''leafProbability'' (JInt 0),
      py_get data ''leafGenerationThreshold'' (JInt 0),
      py_get data ''length'' (JFloat (Fin 1.0)),
      py_get data ''thickness'' (JFloat (Fin 0.1)),
      py_get data ''tapering'' (JFloat (Fin 0.8))]"

text \<open>The parameter tuple of the \<^verbatim>\<open>UPDATE\<close> of \<^verbatim>\<open>create_plant\<close>: the name comes last.\<close>

definition create_update_tuple :: "json \<Rightarrow> int \<Rightarrow> (exn + json) list" where
  "create_update_tuple data timestamp =
     [Inr (JInt timestamp),
      py_index data ''axiom'',
      py_index data ''rules'',
      py_index data ''iterations'',
      py_index data ''angle'',
      py_get data ''angleVariation'' (JInt 0),
      py_get data ''lengthVariation'' (JInt 0),
      py_get data ''lengthTapering'' (JFloat (Fin 1.0)),
      py_get data ''leafProbability'' (JInt 0),
      py_get data ''leafGenerationThreshold'' (JInt 0),
      py_get data ''length'' (JFloat (Fin 1.0)),
      py_get data ''thickness'' (JFloat (Fin 0.1)),
      py_get data ''tapering'' (JFloat (Fin 0.8)),
      py_index data ''name'']"

text \<open>\<^verbatim>\<open>conn.execute(sql, tuple)\<close>: evaluate the tuple, bind it, run the statement.\<close>

definition execute :: "(sqlval list \<Rightarrow> exn + db) \<Rightarrow> (exn + json) list \<Rightarrow> exn + db" where
  "execute stmt tuple =
     (case sequence_err tuple of
        Inl e \<Rightarrow> Inl e
      | Inr js \<Rightarrow> (case bind_all js of Inl e \<Rightarrow> Inl e | Inr vals \<Rightarrow> stmt vals))"

text \<open>\<^verbatim>\<open>conn.execute("SELECT * FROM plants WHERE name = ? ...", (data["name"],))\<close>.\<close>

definition select_name_of :: "(column \<Rightarrow> sqlval \<Rightarrow> sqlval) \<Rightarrow> db \<Rightarrow> json \<Rightarrow> exn + row list" where
  "select_name_of aff d data =
     (case py_index data ''name'' of
        Inl e \<Rightarrow> Inl e
      | Inr n \<Rightarrow> (case bind_param n of Inl e \<Rightarrow> Inl e | Inr v \<Rightarrow> Inr (select_by_name aff d v)))"

text \<open>
  \<^verbatim>\<open>create_plant\<close> (POST /api/plants). \<open>timestamp\<close> is \<^verbatim>\<open>int(time.time() * 1000)\<close>.
  \<^verbatim>\<open>plant["id"]\<close> on the \<^verbatim>\<open>None\<close> of an empty \<^verbatim>\<open>fetchone()\<close> is a \<^verbatim>\<open>TypeError\<close>. The
  database returned is the committed one.
\<close>

definition create_plant ::
  "(column \<Rightarrow> sqlval \<Rightarrow> sqlval) \<Rightarrow> int \<Rightarrow> db \<Rightarrow> json \<Rightarrow> db \<times> response" where
  "create_plant aff timestamp d data =
     (if \<not> truthy data then (d, 400, Failure NoJsonData)
      else case first_missing data required_fields of
        Inl e \<Rightarrow> (d, 500, Failure (Exc e))
      | Inr (Some field) \<Rightarrow> (d, 400, Failure (MissingField field))
      | Inr None \<Rightarrow>
          (case execute (sql_insert aff d) (create_insert_tuple data timestamp) of
             Inr d' \<Rightarrow>
               (case select_name_of aff d' data of
                  Inl e \<Rightarrow> (d', 500, Failure (Exc e))
                | Inr found \<Rightarrow>
                    (case order_by_timestamp_desc found of
                       [] \<Rightarrow> (d', 500, Failure (Exc TypeError))
                     | plant # _ \<Rightarrow> (d', 201, Plant plant)))
           | Inl (IntegrityError _) \<Rightarrow>
               (case execute (sql_replace_by_name aff d) (create_update_tuple data timestamp) of
                  Inl e \<Rightarrow> (d, 500, Failure (Exc e))
                | Inr d' \<Rightarrow>
                    (case select_name_of aff d' data of
                       Inl e \<Rightarrow> (d', 500, Failure (Exc e))
                     | Inr [] \<Rightarrow> (d', 500, Failure (Exc TypeError))
                     | Inr (plant # _) \<Rightarrow> (d', 200, Plant plant)))
           | Inl e \<Rightarrow> (d, 500, Failure (Exc e))))"

text \<open>The parameter tuple of the \<^verbatim>\<open>UPDATE\<close> of \<^verbatim>\<open>update_plant\<close>, without the final \<^verbatim>\<open>plant_id\<close>.\<close>

definition update_tuple :: "json \<Rightarrow> int \<Rightarrow> (exn + json) list" where
  "update_tuple data timestamp =
     [py_get data ''name'' JNull,
      Inr (JInt timestamp),
      py_get data ''axiom'' JNull,
      py_get data ''rules'' JNull,
      py_get data ''iterations'' JNull,
      py_get data ''angle'' JNull,
      py_get data ''angleVariation'' JNull,
      py_get data ''lengthVariation'' JNull,
      py_get data ''lengthTapering'' JNull,
      py_get data ''leafProbability'' JNull,
      py_get data ''leafGenerationThreshold'' JNull,
      py_get data ''length'' JNull,
      py_get data ''thickness'' JNull,
      py_get data ''tapering'' JNull]"

text \<open>
  \<^verbatim>\<open>update_plant\<close> (PUT /api/plants/<int:plant_id>). No \<^verbatim>\<open>sqlite3.IntegrityError\<close> is caught
  here: whatever \<^verbatim>\<open>conn.execute\<close> raises reaches the outer \<^verbatim>\<open>except Exception\<close>.
\<close>

definition update_plant ::
  "(column \<Rightarrow> sqlval \<Rightarrow> sqlval) \<Rightarrow> int \<Rightarrow> db \<Rightarrow> int \<Rightarrow> json \<Rightarrow> db \<times> response" where
  "update_plant aff timestamp d plant_id data =
     (if \<not> truthy data then (d, 400, Failure NoJsonData)
      else if select_by_id d plant_id = [] then (d, 404, Failure NotFound)
      else case execute (sql_merge_by_id aff d plant_id) (update_tuple data timestamp) of
        Inl e \<Rightarrow> (d, 500, Failure (Exc e))
      | Inr d' \<Rightarrow>
          (case select_by_id d' plant_id of
             [] \<Rightarrow> (d', 500, Failure (Exc TypeError))
           | plant # _ \<Rightarrow> (d', 200, Plant plant)))"

text \<open>\<^verbatim>\<open>get_plants\<close> (GET /api/plants).\<close>

definition get_plants :: "db \<Rightarrow> response" where
  "get_plants d = (200, Plants (order_by_timestamp_desc (plants d)))"

text \<open>
  \<^verbatim>\<open>migrate_from_localstorage\<close> (POST /api/plants/migrate). \<^verbatim>\<open>mapped_data\<close> is built with
  \<^verbatim>\<open>plant_data.get\<close>, so an absent key and a key holding \<^verbatim>\<open>None\<close> both give \<^verbatim>\<open>None\<close>.
\<close>

definition mapped_data :: "(string \<times> json) list \<Rightarrow> (string \<times> json) list" where
  "mapped_data plant_data =
     [(''name'', dict_get plant_data ''name'' JNull),
      (''axiom'', dict_get plant_data ''axiom'' JNull),
      (''rules'', dict_get plant_data ''rules'' JNull),
      (''iterations'', dict_get plant_data ''iterations'' JNull),
      (''angle'', dict_get plant_data ''angle'' JNull),
      (''angleVariation'', dict_get plant_data ''angleVariation'' (JInt 0)),
      (''lengthVariation'', dict_get plant_data ''lengthVariation'' (JInt 0)),
      (''lengthTapering'', dict_get plant_data ''lengthTapering'' (JFloat (Fin 1.0))),
      (''leafProbability'', dict_get plant_data ''leafProbability'' (JInt 0)),
      (''leafGenerationThreshold'', dict_get plant_data ''leafThreshold'' (JInt 0)),
      (''length'', dict_get plant_data ''length'' (JFloat (Fin 1.0))),
      (''thickness'', dict_get plant_data ''thickness'' (JFloat (Fin 0.1))),
      (''tapering'', dict_get plant_data ''tapering'' (JFloat (Fin 0.8)))]"

text \<open>
  \<^verbatim>\<open>all(mapped_data.get(field) is not None for field in required_fields)\<close>.
\<close>

definition has_required :: "(string \<times> json) list \<Rightarrow> bool" where
  "has_required m = list_all (\<lambda>field. dict_get m field JNull \<noteq> JNull) required_fields"

text \<open>The parameter tuple of the \<^verbatim>\<open>INSERT\<close> of the import; every key is in \<^verbatim>\<open>mapped_data\<close>.\<close>

definition import_tuple :: "(string \<times> json) list \<Rightarrow> json \<Rightarrow> (exn + json) list" where
  "import_tuple m timestamp =
     [py_index (JObj m) ''name'',
      Inr timestamp,
      py_index (JObj m) ''axiom'',
      py_index (JObj m) ''rules'',
      py_index (JObj m) ''iterations'',
      py_index (JObj m) ''angle'',
      py_index (JObj m) ''angleVariation'',
      py_index (JObj m) ''lengthVariation'',
      py_index (JObj m) ''lengthTapering'',
      py_index (JObj m) ''leafProbability'',
      py_index (JObj m) ''leafGenerationThreshold'',
      py_index (JObj m) ''length'',
      py_index (JObj m) ''thickness'',
      py_index (JObj m) ''tapering'']"

text \<open>
  The state of the loop: the connection's database, \<^verbatim>\<open>migrated_count\<close> and \<^verbatim>\<open>errors\<close>.
  One turn of \<^verbatim>\<open>for plant_data in plants\<close>, with \<open>now\<close> the \<^verbatim>\<open>int(time.time() * 1000)\<close> of
  that turn. A \<open>plant_data\<close> that is not a dict has no \<^verbatim>\<open>get\<close>: the \<^verbatim>\<open>AttributeError\<close> is
  caught by \<^verbatim>\<open>except Exception\<close>, whose own \<^verbatim>\<open>plant_data.get('name', 'unnamed')\<close> raises it
  again, and that one leaves the loop.
\<close>

type_synonym import_state = "db \<times> nat \<times> import_error list"

definition migrate_record ::
  "(column \<Rightarrow> sqlval \<Rightarrow> sqlval) \<Rightarrow> int \<Rightarrow> import_state \<Rightarrow> json \<Rightarrow> exn + import_state" where
  "migrate_record aff now st plant_data =
     (case st of (d, migrated_count, errors) \<Rightarrow>
      (case plant_data of
        JObj kvs \<Rightarrow>
          (let m = mapped_data kvs in
           if \<not> has_required m
           then Inr (d, migrated_count,
                     errors @ [MissingFields (dict_get kvs ''name'' (JStr ''unnamed''))])
           else
             (case execute (sql_insert aff d) (import_tuple m (dict_get kvs ''timestamp'' (JInt now))) of
                Inr d' \<Rightarrow> Inr (d', migrated_count + 1, errors)
              | Inl (IntegrityError _) \<Rightarrow>
                  Inr (d, migrated_count, errors @ [AlreadyExists (dict_get m ''name'' JNull)])
              | Inl e \<Rightarrow>
                  Inr (d, migrated_count,
                       errors @ [ProcessingError (dict_get kvs ''name'' (JStr ''unnamed'')) e])))
      | _ \<Rightarrow> Inl AttributeError))"

text \<open>The loop; \<open>clock i\<close> is the time read in turn \<open>i\<close>.\<close>

fun migrate_loop ::
  "(column \<Rightarrow> sqlval \<Rightarrow> sqlval) \<Rightarrow> (nat \<Rightarrow> int) \<Rightarrow> nat \<Rightarrow> import_state \<Rightarrow> json list
     \<Rightarrow> exn + import_state" where
  "migrate_loop aff clock i st [] = Inr st"
| "migrate_loop aff clock i st (plant_data # rest) =
     (case migrate_record aff (clock i) st plant_data of
        Inl e \<Rightarrow> Inl e
      | Inr st' \<Rightarrow> migrate_loop aff clock (Suc i) st' rest)"

text \<open>
  The handler. \<^verbatim>\<open>conn.commit()\<close> comes after the loop: an exception that leaves the loop
  reaches the outer \<^verbatim>\<open>except Exception\<close> with nothing committed.
\<close>

definition migrate_from_localstorage ::
  "(column \<Rightarrow> sqlval \<Rightarrow> sqlval) \<Rightarrow> (nat \<Rightarrow> int) \<Rightarrow> db \<Rightarrow> json \<Rightarrow> db \<times> response" where
  "migrate_from_localstorage aff clock d data =
     (if \<not> truthy data then (d, 400, Failure NoPlantsData)
      else case py_in ''plants'' data of
        Inl e \<Rightarrow> (d, 500, Failure (Exc e))
      | Inr False \<Rightarrow> (d, 400, Failure NoPlantsData)
      | Inr True \<Rightarrow>
          (case py_index data ''plants'' of
             Inl e \<Rightarrow> (d, 500, Failure (Exc e))
           | Inr (JArr records) \<Rightarrow>
               (case migrate_loop aff clock 0 (d, 0, []) records of
                  Inl e \<Rightarrow> (d, 500, Failure (Exc e))
                | Inr (d', migrated_count, errors) \<Rightarrow> (d', 200, Report migrated_count errors))
           | Inr _ \<Rightarrow> (d, 400, Failure PlantsNotArray)))"

section \<open>Vocabulary of the properties\<close>

text \<open>
  The JSON key each handler reads for a column, and the default \<^verbatim>\<open>create_plant\<close> and the
  import pass to \<^verbatim>\<open>get\<close> for the optional ones. The import reads
  \<^verbatim>\<open>leaf_generation_threshold\<close> from the legacy key \<^verbatim>\<open>leafThreshold\<close>, and \<^verbatim>\<open>timestamp\<close> is
  read by the import only.
\<close>

fun field_key :: "column \<Rightarrow> string" where
  "field_key c_name = ''name''"
| "field_key c_timestamp = ''timestamp''"
| "field_key c_axiom = ''axiom''"
| "field_key c_rules = ''rules''"
| "field_key c_iterations = ''iterations''"
| "field_key c_angle = ''angle''"
| "field_key c_angle_variation = ''angleVariation''"
| "field_key c_length_variation = ''lengthVariation''"
| "field_key c_length_tapering = ''lengthTapering''"
| "field_key c_leaf_probability = ''leafProbability''"
| "field_key c_leaf_generation_threshold = ''leafGenerationThreshold''"
| "field_key c_length = ''length''"
| "field_key c_thickness = ''thickness''"
| "field_key c_tapering = ''tapering''"

definition legacy_key :: "column \<Rightarrow> string" where
  "legacy_key c = (if c = c_leaf_generation_threshold then ''leafThreshold'' else field_key c)"

fun field_default :: "column \<Rightarrow> json" where
  "field_default c_angle_variation = JInt 0"
| "field_default c_length_variation = JInt 0"
| "field_default c_length_tapering = JFloat (Fin 1.0)"
| "field_default c_leaf_probability = JInt 0"
| "field_default c_leaf_generation_threshold = JInt 0"
| "field_default c_length = JFloat (Fin 1.0)"
| "field_default c_thickness = JFloat (Fin 0.1)"
| "field_default c_tapering = JFloat (Fin 0.8)"
| "field_default _ = JNull"

definition optional_columns :: "column list" where
  "optional_columns =
     [c_angle_variation, c_length_variation, c_length_tapering, c_leaf_probability,
      c_leaf_generation_threshold, c_length, c_thickness, c_tapering]"

text \<open>The Python value each handler passes for column \<open>c\<close> when its input is the dict \<open>kvs\<close>.\<close>

definition create_value :: "(string \<times> json) list \<Rightarrow> int \<Rightarrow> column \<Rightarrow> json" where
  "create_value kvs timestamp c =
     (if c = c_timestamp then JInt timestamp else dict_get kvs (field_key c) (field_default c))"

definition update_value :: "(string \<times> json) list \<Rightarrow> int \<Rightarrow> column \<Rightarrow> json" where
  "update_value kvs timestamp c =
     (if c = c_timestamp then JInt timestamp else dict_get kvs (field_key c) JNull)"

definition import_value :: "(string \<times> json) list \<Rightarrow> int \<Rightarrow> column \<Rightarrow> json" where
  "import_value kvs now c =
     (if c = c_timestamp then dict_get kvs ''timestamp'' (JInt now)
      else dict_get kvs (legacy_key c) (field_default c))"

text \<open>The two required-field validations: the loop of \<^verbatim>\<open>create_plant\<close> and the \<^verbatim>\<open>all(...)\<close> of the import.\<close>

definition create_accepts :: "json \<Rightarrow> bool" where
  "create_accepts data = (first_missing data required_fields = Inr None)"

definition import_accepts :: "(string \<times> json) list \<Rightarrow> bool" where
  "import_accepts plant_data = has_required (mapped_data plant_data)"




text \<open>The value of a column in the row a handler answers with, if it answers with a row.\<close>

fun answered_cell :: "db \<times> response \<Rightarrow> column \<Rightarrow> sqlval option" where
  "answered_cell (d, st, Plant r) c = Some (cells r c)"
| "answered_cell (d, st, b) c = None"

fun names_missing_field :: "body \<Rightarrow> bool" where
  "names_missing_field (Failure (MissingField f)) = True"
| "names_missing_field _ = False"

text \<open>
  An instance of SQLite's conversion for the examples: an integer given to a REAL column is
  stored as that real number. The examples meet no other conversion.
\<close>

definition numeric_affinity :: "column \<Rightarrow> sqlval \<Rightarrow> sqlval" where
  "numeric_affinity c v = (case (col_type c, v) of (REAL, SInt i) \<Rightarrow> SReal (Fin (of_int i)) | _ \<Rightarrow> v)"

section \<open>Example data\<close>

text \<open>The first record of the import example of the specification, as a dict.\<close>

definition fern_kvs :: "(string \<times> json) list" where
  "fern_kvs =
     [(''name'', JStr ''fern''), (''axiom'', JStr ''F''), (''rules'', JStr ''F->F[+F]F[-F]''),
      (''iterations'', JInt 4), (''angle'', JInt 25)]"

text \<open>The row that creating \<open>fern_kvs\<close> with \<^verbatim>\<open>"thickness": 0.5\<close> at time 1000 leaves in an empty table.\<close>

definition thick_fern :: row where
  "thick_fern =
     \<lparr>rid = 1,
      cells = assign insert_columns
        [SText ''fern'', SInt 1000, SText ''F'', SText ''F->F[+F]F[-F]'', SInt 4, SReal (Fin 25),
         SReal (Fin 0), SReal (Fin 0), SReal (Fin 1), SReal (Fin 0), SInt 0, SReal (Fin 1), SReal (Fin 0.5), SReal (Fin 0.8)]\<rparr>"

definition fern_db :: db where
  "fern_db = \<lparr>plants = [thick_fern], last_id = 1\<rparr>"

text \<open>
  Inputs that name the stored fern: one whose axiom is \<^verbatim>\<open>null\<close>, one whose angle is NaN,
  one whose rules are a dict.
\<close>

definition null_axiom_kvs :: "(string \<times> json) list" where
  "null_axiom_kvs =
     [(''name'', JStr ''fern''), (''axiom'', JNull), (''rules'', JStr ''F''),
      (''iterations'', JInt 1), (''angle'', JInt 10)]"

definition nan_angle_kvs :: "(string \<times> json) list" where
  "nan_angle_kvs =
     [(''name'', JStr ''fern''), (''axiom'', JStr ''F''), (''rules'', JStr ''F''),
      (''iterations'', JInt 1), (''angle'', JNaN)]"

definition dict_rules_kvs :: "(string \<times> json) list" where
  "dict_rules_kvs =
     [(''name'', JStr ''fern''), (''axiom'', JStr ''F''), (''rules'', JObj [(''F'', JStr ''FF'')]),
      (''iterations'', JInt 1), (''angle'', JInt 10)]"

text \<open>A second input, the row it becomes when created at time 1500, and the table holding both rows.\<close>

definition moss_kvs :: "(string \<times> json) list" where
  "moss_kvs =
     [(''name'', JStr ''moss''), (''axiom'', JStr ''X''), (''rules'', JStr ''X->XX''),
      (''iterations'', JInt 2), (''angle'', JInt 60)]"

definition moss :: row where
  "moss =
     \<lparr>rid = 2,
      cells = assign insert_columns
        [SText ''moss'', SInt 1500, SText ''X'', SText ''X->XX'', SInt 2, SReal (Fin 60),
         SReal (Fin 0), SReal (Fin 0), SReal (Fin 1), SReal (Fin 0), SInt 0, SReal (Fin 1), SReal (Fin 0.1), SReal (Fin 0.8)]\<rparr>"

definition garden_db :: db where
  "garden_db = \<lparr>plants = [thick_fern, moss], last_id = 2\<rparr>"

text \<open>
  The second record of the import example, the row the first one leaves in an empty table
  at time 1000, and a record that has nothing but the name.
\<close>

definition fern2_kvs :: "(string \<times> json) list" where
  "fern2_kvs =
     [(''name'', JStr ''fern''), (''axiom'', JStr ''F''), (''rules'', JStr ''F''),
      (''iterations'', JInt 1), (''angle'', JInt 10)]"

definition plain_fern :: row where
  "plain_fern =
     \<lparr>rid = 1,
      cells = assign insert_columns
        [SText ''fern'', SInt 1000, SText ''F'', SText ''F->F[+F]F[-F]'', SInt 4, SReal (Fin 25),
         SReal (Fin 0), SReal (Fin 0), SReal (Fin 1), SReal (Fin 0), SInt 0, SReal (Fin 1), SReal (Fin 0.1), SReal (Fin 0.8)]\<rparr>"

definition plain_fern_db :: db where
  "plain_fern_db = \<lparr>plants = [plain_fern], last_id = 1\<rparr>"

definition name_only_kvs :: "(string \<times> json) list" where
  "name_only_kvs = [(''name'', JStr ''fern'')]"

fun is_dict :: "json \<Rightarrow> bool" where
  "is_dict (JObj kvs) = True"
| "is_dict _ = False"

text \<open>
  A legacy record that brings its own, older timestamp, the row it becomes as the second
  row of a table, and the table after importing the fern and then it.
\<close>

definition backdated_moss_kvs :: "(string \<times> json) list" where
  "backdated_moss_kvs =
     [(''name'', JStr ''moss''), (''axiom'', JStr ''X''), (''rules'', JStr ''X->XX''),
      (''iterations'', JInt 2), (''angle'', JInt 60), (''timestamp'', JInt 500)]"

definition backdated_moss :: row where
  "backdated_moss =
     \<lparr>rid = 2,
      cells = assign insert_columns
        [SText ''moss'', SInt 500, SText ''X'', SText ''X->XX'', SInt 2, SReal (Fin 60),
         SReal (Fin 0), SReal (Fin 0), SReal (Fin 1), SReal (Fin 0), SInt 0, SReal (Fin 1), SReal (Fin 0.1), SReal (Fin 0.8)]\<rparr>"

definition backdated_db :: db where
  "backdated_db = \<lparr>plants = [plain_fern, backdated_moss], last_id = 2\<rparr>"

text \<open>Newest first: no row is followed by one with a greater timestamp.\<close>

definition newest_first :: "row list \<Rightarrow> bool" where
  "newest_first rs = sorted_wrt (\<lambda>a b. sql_le (cells b c_timestamp) (cells a c_timestamp)) rs"

section \<open>Auxiliary facts\<close>

subsection \<open>Lists\<close>

lemma find_Some_iff_ex: "list_ex P xs \<Longrightarrow> \<exists>x. find P xs = Some x"
  by (induction xs) auto

lemma find_None_list_all: "(find P xs = None) = list_all (\<lambda>x. \<not> P x) xs"
  by (induction xs) auto

lemma find_weaken_None: "find P xs = None \<Longrightarrow> find (\<lambda>x. Q x \<and> P x) xs = None"
  by (induction xs) (auto split: if_splits)

lemma find_Some_mem: "find P xs = Some x \<Longrightarrow> x \<in> set xs \<and> P x"
  by (induction xs) (auto split: if_splits)

lemma find_filter_hd: "find P xs = Some x \<Longrightarrow> \<exists>rest. filter P xs = x # rest"
  by (induction xs) (auto split: if_splits)

lemma filter_name_hd:
  "list_ex P xs \<Longrightarrow> \<exists>x rest. filter P xs = x # rest \<and> find P xs = Some x"
  by (induction xs) auto

lemma filter_none: "\<not> list_ex P xs \<Longrightarrow> filter P xs = []"
  by (induction xs) auto

subsection \<open>Tuples, binding and stored values\<close>

lemma sequence_err_map_Inr: "sequence_err (map Inr xs) = Inr xs"
  by (induction xs) simp_all

lemma bind_all_eq:
  "bind_all js = (if list_all bindable js then Inr (map sql_of js) else Inl BindError)"
proof (induction js)
  case Nil
  show ?case by (simp add: bind_all_def)
next
  case (Cons j js)
  then show ?case by (simp add: bind_all_def bind_param_def)
qed

lemma sql_of_null: "bindable j \<Longrightarrow> (sql_of j = SNull) = (j = JNull \<or> j = JNaN)"
  by (cases j) auto

lemma execute_values:
  "execute stmt (map Inr js) =
     (if list_all bindable js then stmt (map sql_of js) else Inl BindError)"
  by (simp add: execute_def sequence_err_map_Inr bind_all_eq)

lemma assign_insert_columns: "assign insert_columns (map f insert_columns) c = f c"
  by (cases c) (simp_all add: assign_def insert_columns_def)

lemma assign_insert_fun: "assign insert_columns (map p insert_columns) = p"
  by (rule ext) (rule assign_insert_columns)

lemma assign_replace_columns:
  "assign replace_columns (map f replace_columns) c = (if c = c_name then SNull else f c)"
  by (cases c) (simp_all add: assign_def replace_columns_def)

lemma stored_timestamp: "stored aff c_timestamp (SInt ts) = SInt ts"
  by (simp add: stored_def)



subsection \<open>The statements\<close>

lemma sql_insert_params:
  "sql_insert aff d (map p insert_columns) =
     (case find (\<lambda>c. p c = SNull) not_null_columns of
        Some c \<Rightarrow> Inl (IntegrityError (NotNull c))
      | None \<Rightarrow>
          if list_ex (name_is (stored aff c_name (p c_name))) (plants d)
          then Inl (IntegrityError UniqueName)
          else Inr \<lparr>plants = plants d @ [\<lparr>rid = next_id d, cells = (\<lambda>c. stored aff c (p c))\<rparr>],
                    last_id = next_id d\<rparr>)"
  by (simp add: sql_insert_def assign_insert_fun)

lemma sql_insert_error: "sql_insert aff d vals = Inl e \<Longrightarrow> \<exists>c. e = IntegrityError c"
  by (auto simp: sql_insert_def Let_def split: option.splits if_splits)

lemma sql_insert_appends: "sql_insert aff d vals = Inr d' \<Longrightarrow> \<exists>r. plants d' = plants d @ [r]"
  by (auto simp: sql_insert_def Let_def split: option.splits if_splits)


lemma replace_row_assign:
  "replace_row aff (assign replace_columns (map p replace_columns)) = replace_row aff p"
proof (rule ext)
  fix r :: row
  have "(\<lambda>c. if c = c_name then cells r c_name
             else stored aff c (assign replace_columns (map p replace_columns) c)) =
        (\<lambda>c. if c = c_name then cells r c_name else stored aff c (p c))"
    by (rule ext) (simp add: assign_replace_columns)
  then show "replace_row aff (assign replace_columns (map p replace_columns)) r = replace_row aff p r"
    by (simp add: replace_row_def)
qed

lemma find_assign_replace:
  "find (\<lambda>c. c \<noteq> c_name \<and> assign replace_columns (map p replace_columns) c = SNull) cs =
   find (\<lambda>c. c \<noteq> c_name \<and> p c = SNull) cs"
  by (rule find_cong) (auto simp: assign_replace_columns)

lemma sql_replace_by_name_params:
  "sql_replace_by_name aff d (map p replace_columns @ [k]) =
     (case find (\<lambda>c. c \<noteq> c_name \<and> p c = SNull) not_null_columns of
        Some c \<Rightarrow>
          if list_ex (name_is (stored aff c_name k)) (plants d)
          then Inl (IntegrityError (NotNull c)) else Inr d
      | None \<Rightarrow>
          Inr (d\<lparr>plants := map (\<lambda>r. if name_is (stored aff c_name k) r then replace_row aff p r else r)
                               (plants d)\<rparr>))"
  by (simp add: sql_replace_by_name_def replace_row_assign find_assign_replace Let_def
      cong: option.case_cong if_cong)

lemma name_is_replace_row: "name_is key (replace_row aff p r) = name_is key r"
  by (simp add: name_is_def replace_row_def)

lemma filter_map_replace:
  "filter (name_is key) (map (\<lambda>r. if name_is key r then replace_row aff p r else r) rs) =
   map (replace_row aff p) (filter (name_is key) rs)"
  by (induction rs) (simp_all add: name_is_replace_row)


lemma sql_merge_by_id_params:
  "sql_merge_by_id aff d plant_id (map p insert_columns) =
     (if list_ex (\<lambda>r. rid r = plant_id) (plants d) \<and> p c_timestamp = SNull
      then Inl (IntegrityError (NotNull c_timestamp))
      else if list_ex (\<lambda>r. rid r = plant_id \<and>
                 list_ex (\<lambda>q. rid q \<noteq> plant_id \<and> name_is (cells (merge_row aff p r) c_name) q) (plants d))
               (plants d)
      then Inl (IntegrityError UniqueName)
      else Inr (d\<lparr>plants := map (\<lambda>r. if rid r = plant_id then merge_row aff p r else r) (plants d)\<rparr>))"
  by (simp add: sql_merge_by_id_def assign_insert_fun)

lemma rid_merge_row: "rid (merge_row aff p r) = rid r"
  by (simp add: merge_row_def)

lemma find_rid_unique:
  assumes "distinct (map rid rs)" "find (\<lambda>q. rid q = i) rs = Some old" "q \<in> set rs" "rid q = i"
  shows "q = old"
  using assms
proof (induction rs)
  case Nil
  then show ?case by simp
next
  case (Cons x xs)
  then show ?case by (auto split: if_splits dest: find_Some_iff[THEN iffD1])
qed

lemma filter_map_const:
  "rid m = i \<Longrightarrow>
   filter (\<lambda>q. rid q = i) (map (\<lambda>q. if rid q = i then m else q) rs) =
   map (\<lambda>q. m) (filter (\<lambda>q. rid q = i) rs)"
  by (induction rs) simp_all

subsection \<open>The two validations\<close>

lemma first_missing_obj:
  "first_missing (JObj kvs) fs = Inr (find (\<lambda>f. map_of kvs f = None) fs)"
  by (induction fs) simp_all

lemma create_accepts_obj:
  "create_accepts (JObj kvs) = list_all (\<lambda>f. map_of kvs f \<noteq> None) required_fields"
  by (simp add: create_accepts_def first_missing_obj required_fields_def)

lemma import_accepts_iff:
  "import_accepts kvs = list_all (\<lambda>f. map_of kvs f \<noteq> None \<and> map_of kvs f \<noteq> Some JNull) required_fields"
  by (auto simp add: import_accepts_def has_required_def mapped_data_def required_fields_def dict_get_def
      split: option.splits)

lemma required_values:
  assumes "list_all (\<lambda>f. map_of kvs f \<noteq> None \<and> map_of kvs f \<noteq> Some JNull \<and>
                    map_of kvs f \<noteq> Some JNaN) required_fields"
  shows "list_all (\<lambda>c. c = c_timestamp \<or>
                    (create_value kvs ts c \<noteq> JNull \<and> create_value kvs ts c \<noteq> JNaN))
           not_null_columns"
  using assms
  by (auto simp: required_fields_def not_null_columns_def create_value_def dict_get_def
      split: option.splits)

lemma required_present:
  "list_all (\<lambda>f. map_of kvs f \<noteq> None \<and> map_of kvs f \<noteq> Some JNull \<and>
                    map_of kvs f \<noteq> Some JNaN) required_fields \<Longrightarrow>
   list_all (\<lambda>f. map_of kvs f \<noteq> None) required_fields"
  by (simp add: required_fields_def)

lemma kvs_nonempty: 
  "list_all (\<lambda>f. map_of kvs f \<noteq> None) required_fields \<Longrightarrow> kvs \<noteq> []"
  by (auto simp: required_fields_def)

subsection \<open>create_plant on a dict\<close>

lemma create_insert_tuple_obj:
  assumes "list_all (\<lambda>f. map_of kvs f \<noteq> None) required_fields"
  shows "create_insert_tuple (JObj kvs) ts = map Inr (map (create_value kvs ts) insert_columns)"
  using assms
  by (auto simp: create_insert_tuple_def required_fields_def insert_columns_def create_value_def
      dict_get_def)

lemma create_update_tuple_obj:
  assumes "list_all (\<lambda>f. map_of kvs f \<noteq> None) required_fields"
  shows "create_update_tuple (JObj kvs) ts =
         map Inr (map (create_value kvs ts) replace_columns @ [create_value kvs ts c_name])"
  using assms
  by (auto simp: create_update_tuple_def required_fields_def replace_columns_def create_value_def
      dict_get_def)

lemma select_name_of_obj:
  assumes "map_of kvs ''name'' = Some n" "bindable n"
  shows "select_name_of aff d (JObj kvs) = Inr (select_by_name aff d (sql_of n))"
  using assms by (simp add: select_name_of_def bind_param_def)

lemma no_null_param:
  assumes req: "list_all (\<lambda>f. map_of kvs f \<noteq> None \<and> map_of kvs f \<noteq> Some JNull \<and>
                    map_of kvs f \<noteq> Some JNaN) required_fields"
      and bnd: "list_all (\<lambda>c. bindable (create_value kvs ts c)) insert_columns"
  shows "find (\<lambda>c. sql_of (create_value kvs ts c) = SNull) not_null_columns = None"
proof -
  have b: "bindable (create_value kvs ts c)" for c
    using bnd by (cases c) (simp_all add: insert_columns_def)
  have r: "\<forall>c\<in>set not_null_columns. c = c_timestamp \<or>
             (create_value kvs ts c \<noteq> JNull \<and> create_value kvs ts c \<noteq> JNaN)"
    using required_values[OF req, of ts] by (simp add: list_all_iff)
  have "sql_of (create_value kvs ts c) \<noteq> SNull" if "c \<in> set not_null_columns" for c
  proof (cases "c = c_timestamp")
    case True
    then show ?thesis by (simp add: create_value_def)
  next
    case False
    with r that have "create_value kvs ts c \<noteq> JNull \<and> create_value kvs ts c \<noteq> JNaN" by blast
    then show ?thesis using sql_of_null[OF b[of c]] by simp
  qed
  then show ?thesis by (simp add: find_None_list_all list_all_iff)
qed

lemma execute_create_insert:
  assumes "list_all (\<lambda>f. map_of kvs f \<noteq> None) required_fields"
  shows "execute stmt (create_insert_tuple (JObj kvs) ts) =
           (if list_all (\<lambda>c. bindable (create_value kvs ts c)) insert_columns
            then stmt (map (\<lambda>c. sql_of (create_value kvs ts c)) insert_columns)
            else Inl BindError)"
  using execute_values[of stmt "map (create_value kvs ts) insert_columns"]
  by (simp add: create_insert_tuple_obj[OF assms] list.pred_map comp_def)

lemma execute_create_update:
  assumes "list_all (\<lambda>f. map_of kvs f \<noteq> None) required_fields"
  shows "execute stmt (create_update_tuple (JObj kvs) ts) =
           (if list_all (\<lambda>c. bindable (create_value kvs ts c)) insert_columns
            then stmt (map (\<lambda>c. sql_of (create_value kvs ts c)) replace_columns @
                       [sql_of (create_value kvs ts c_name)])
            else Inl BindError)"
  using execute_values[of stmt "map (create_value kvs ts) replace_columns @ [create_value kvs ts c_name]"]
  by (simp add: create_update_tuple_obj[OF assms] list.pred_map comp_def)
     (auto simp: insert_columns_def replace_columns_def)

lemma create_plant_replace_aux:
  assumes pres: "list_all (\<lambda>f. map_of kvs f \<noteq> None) required_fields"
      and bnd: "list_all (\<lambda>c. bindable (create_value kvs ts c)) insert_columns"
      and nn: "find (\<lambda>c. sql_of (create_value kvs ts c) = SNull) not_null_columns = None"
      and old: "find (name_is (stored aff c_name (sql_of (create_value kvs ts c_name)))) (plants d) = Some old"
  shows "create_plant aff ts d (JObj kvs) =
           (d\<lparr>plants := map (\<lambda>r. if name_is (stored aff c_name (sql_of (create_value kvs ts c_name))) r
                                 then replace_row aff (\<lambda>c. sql_of (create_value kvs ts c)) r else r) (plants d)\<rparr>,
            200, Plant (replace_row aff (\<lambda>c. sql_of (create_value kvs ts c)) old))"
proof -
  let ?p = "\<lambda>c. sql_of (create_value kvs ts c)"
  let ?key = "stored aff c_name (?p c_name)"
  let ?d' = "d\<lparr>plants := map (\<lambda>r. if name_is ?key r then replace_row aff ?p r else r) (plants d)\<rparr>"
  have ne: "kvs \<noteq> []" using pres by (rule kvs_nonempty)
  have fm: "first_missing (JObj kvs) required_fields = Inr None"
    using pres by (simp add: first_missing_obj find_None_list_all)
  have b: "bindable (create_value kvs ts c)" for c
    using bnd by (cases c) (simp_all add: insert_columns_def)
  have ex: "list_ex (name_is ?key) (plants d)"
    using old by (metis find_None_iff list_ex_iff option.distinct(1))
  have ins: "execute (sql_insert aff d) (create_insert_tuple (JObj kvs) ts) = Inl (IntegrityError UniqueName)"
    using ex nn bnd
    by (simp add: execute_create_insert[OF pres] sql_insert_params)
  have upd: "execute (sql_replace_by_name aff d) (create_update_tuple (JObj kvs) ts) = Inr ?d'"
    using bnd find_weaken_None[OF nn, of "\<lambda>c. c \<noteq> c_name"]
    by (simp add: execute_create_update[OF pres] sql_replace_by_name_params)
  obtain n where n: "map_of kvs ''name'' = Some n"
    using pres by (auto simp: required_fields_def)
  then have cv: "create_value kvs ts c_name = n"
    by (simp add: create_value_def dict_get_def)
  have bn: "bindable n" using b[of c_name] cv by simp
  obtain rest where flt: "filter (name_is ?key) (plants d) = old # rest"
    using filter_name_hd[OF ex] old by auto
  have sel: "select_name_of aff ?d' (JObj kvs) = Inr (replace_row aff ?p old # map (replace_row aff ?p) rest)"
    using flt by (simp add: select_name_of_obj[OF n bn] select_by_name_def filter_map_replace cv)
  show ?thesis
    by (simp add: create_plant_def ne fm ins upd sel)
qed

lemma create_plant_replace:
  assumes req: "list_all (\<lambda>f. map_of kvs f \<noteq> None \<and> map_of kvs f \<noteq> Some JNull \<and>
                    map_of kvs f \<noteq> Some JNaN) required_fields"
      and bnd: "list_all (\<lambda>c. bindable (create_value kvs ts c)) insert_columns"
      and old: "find (name_is (stored aff c_name (sql_of (create_value kvs ts c_name)))) (plants d) = Some old"
  shows "create_plant aff ts d (JObj kvs) =
           (d\<lparr>plants := map (\<lambda>r. if name_is (stored aff c_name (sql_of (create_value kvs ts c_name))) r
                                 then replace_row aff (\<lambda>c. sql_of (create_value kvs ts c)) r else r) (plants d)\<rparr>,
            200, Plant (replace_row aff (\<lambda>c. sql_of (create_value kvs ts c)) old))"
  using create_plant_replace_aux[OF required_present[OF req] bnd no_null_param[OF req bnd] old] .

lemma order_single: "order_by_timestamp_desc [r] = [r]"
  by (simp add: order_by_timestamp_desc_def)

lemma create_plant_insert_aux:
  assumes pres: "list_all (\<lambda>f. map_of kvs f \<noteq> None) required_fields"
      and bnd: "list_all (\<lambda>c. bindable (create_value kvs ts c)) insert_columns"
      and nn: "find (\<lambda>c. sql_of (create_value kvs ts c) = SNull) not_null_columns = None"
      and fresh: "\<not> list_ex (name_is (stored aff c_name (sql_of (create_value kvs ts c_name)))) (plants d)"
  shows "create_plant aff ts d (JObj kvs) =
           (let new = \<lparr>rid = next_id d, cells = (\<lambda>c. stored aff c (sql_of (create_value kvs ts c)))\<rparr>;
                d' = \<lparr>plants = plants d @ [new], last_id = next_id d\<rparr>
            in if name_is (cells new c_name) new then (d', 201, Plant new)
               else (d', 500, Failure (Exc TypeError)))"
proof -
  let ?p = "\<lambda>c. sql_of (create_value kvs ts c)"
  let ?key = "stored aff c_name (?p c_name)"
  let ?new = "\<lparr>rid = next_id d, cells = (\<lambda>c. stored aff c (?p c))\<rparr>"
  let ?d' = "\<lparr>plants = plants d @ [?new], last_id = next_id d\<rparr>"
  have ne: "kvs \<noteq> []" using pres by (rule kvs_nonempty)
  have fm: "first_missing (JObj kvs) required_fields = Inr None"
    using pres by (simp add: first_missing_obj find_None_list_all)
  have b: "bindable (create_value kvs ts c)" for c
    using bnd by (cases c) (simp_all add: insert_columns_def)
  have ins: "execute (sql_insert aff d) (create_insert_tuple (JObj kvs) ts) = Inr ?d'"
    using fresh nn bnd
    by (simp add: execute_create_insert[OF pres] sql_insert_params)
  obtain n where n: "map_of kvs ''name'' = Some n"
    using pres by (auto simp: required_fields_def)
  then have cv: "create_value kvs ts c_name = n"
    by (simp add: create_value_def dict_get_def)
  have bn: "bindable n" using b[of c_name] cv by simp
  have sel: "select_name_of aff ?d' (JObj kvs) = Inr (if name_is ?key ?new then [?new] else [])"
    using filter_none[OF fresh]
    by (simp add: select_name_of_obj[OF n bn] select_by_name_def cv)
  show ?thesis
    by (simp add: create_plant_def ne fm ins sel order_single order_by_timestamp_desc_def Let_def)
qed








subsection \<open>update_plant on a dict\<close>

lemma update_tuple_obj:
  "update_tuple (JObj kvs) ts = map Inr (map (update_value kvs ts) insert_columns)"
  by (simp add: update_tuple_def insert_columns_def update_value_def)

lemma execute_update_tuple:
  "execute stmt (update_tuple (JObj kvs) ts) =
     (if list_all (\<lambda>c. bindable (update_value kvs ts c)) insert_columns
      then stmt (map (\<lambda>c. sql_of (update_value kvs ts c)) insert_columns)
      else Inl BindError)"
  using execute_values[of stmt "map (update_value kvs ts) insert_columns"]
  by (simp add: update_tuple_obj list.pred_map comp_def)

lemma update_plant_merge:
  assumes ne: "kvs \<noteq> []"
      and old: "find (\<lambda>q. rid q = plant_id) (plants d) = Some old"
      and pk: "distinct (map rid (plants d))"
      and bnd: "list_all (\<lambda>c. bindable (update_value kvs ts c)) insert_columns"
      and free: "\<not> list_ex (\<lambda>q. rid q \<noteq> plant_id \<and>
                    name_is (cells (merge_row aff (\<lambda>c. sql_of (update_value kvs ts c)) old) c_name) q)
                  (plants d)"
  shows "update_plant aff ts d plant_id (JObj kvs) =
           (d\<lparr>plants := map (\<lambda>q. if rid q = plant_id
                                 then merge_row aff (\<lambda>c. sql_of (update_value kvs ts c)) old else q)
                             (plants d)\<rparr>,
            200, Plant (merge_row aff (\<lambda>c. sql_of (update_value kvs ts c)) old))"
proof -
  let ?p = "\<lambda>c. sql_of (update_value kvs ts c)"
  let ?m = "merge_row aff ?p"
  let ?d' = "d\<lparr>plants := map (\<lambda>q. if rid q = plant_id then ?m old else q) (plants d)\<rparr>"
  have mem: "old \<in> set (plants d)" "rid old = plant_id"
    using find_Some_mem[OF old] by simp_all
  have uniq: "q = old" if "q \<in> set (plants d)" "rid q = plant_id" for q
    using find_rid_unique[OF pk old that] .
  have sel: "select_by_id d plant_id \<noteq> []"
    using mem by (auto simp: select_by_id_def filter_empty_conv)
  have ts: "?p c_timestamp \<noteq> SNull" by (simp add: update_value_def)
  have nocoll: "\<not> list_ex (\<lambda>r. rid r = plant_id \<and>
                 list_ex (\<lambda>q. rid q \<noteq> plant_id \<and> name_is (cells (?m r) c_name) q) (plants d))
               (plants d)"
    using free uniq by (auto simp: list_ex_iff)
  have maps: "map (\<lambda>r. if rid r = plant_id then ?m r else r) (plants d) =
              map (\<lambda>q. if rid q = plant_id then ?m old else q) (plants d)"
    using uniq by (intro map_cong refl) auto
  have ex: "execute (sql_merge_by_id aff d plant_id) (update_tuple (JObj kvs) ts) = Inr ?d'"
    using bnd ts nocoll by (simp add: execute_update_tuple sql_merge_by_id_params maps)
  obtain rest where flt: "filter (\<lambda>q. rid q = plant_id) (plants d) = old # rest"
    using find_filter_hd[OF old] by blast
  have "select_by_id ?d' plant_id = ?m old # map (\<lambda>q. ?m old) rest"
    using flt mem(2) by (simp add: select_by_id_def filter_map_const rid_merge_row)
  then show ?thesis
    using sel by (simp add: update_plant_def ne ex)
qed




subsection \<open>The import\<close>

lemma import_tuple_mapped:
  "import_tuple (mapped_data kvs) (dict_get kvs ''timestamp'' (JInt now)) =
     map (\<lambda>c. Inr (import_value kvs now c)) insert_columns"
  by (simp add: import_tuple_def mapped_data_def insert_columns_def import_value_def legacy_key_def)

lemma execute_import_tuple:
  "execute stmt (import_tuple (mapped_data kvs) (dict_get kvs ''timestamp'' (JInt now))) =
     (if list_all (\<lambda>c. bindable (import_value kvs now c)) insert_columns
      then stmt (map (\<lambda>c. sql_of (import_value kvs now c)) insert_columns)
      else Inl BindError)"
  using execute_values[of stmt "map (import_value kvs now) insert_columns"]
  by (simp add: import_tuple_mapped list.pred_map comp_def)

lemma mapped_name: "dict_get (mapped_data kvs) ''name'' JNull = dict_get kvs ''name'' JNull"
  by (simp add: mapped_data_def dict_get_def)

lemma migrate_record_obj:
  "migrate_record aff now (d, n, es) (JObj kvs) =
     (if \<not> import_accepts kvs
      then Inr (d, n, es @ [MissingFields (dict_get kvs ''name'' (JStr ''unnamed''))])
      else if \<not> list_all (\<lambda>c. bindable (import_value kvs now c)) insert_columns
      then Inr (d, n, es @ [ProcessingError (dict_get kvs ''name'' (JStr ''unnamed'')) BindError])
      else case sql_insert aff d (map (\<lambda>c. sql_of (import_value kvs now c)) insert_columns) of
             Inr d' \<Rightarrow> Inr (d', n + 1, es)
           | Inl e \<Rightarrow> Inr (d, n, es @ [AlreadyExists (dict_get kvs ''name'' JNull)]))"
  by (auto simp: migrate_record_def import_accepts_def execute_import_tuple mapped_name Let_def
      split: sum.splits exn.splits dest: sql_insert_error)

lemma migrate_loop_append:
  "migrate_loop aff clock i st (xs @ ys) =
     (case migrate_loop aff clock i st xs of
        Inl e \<Rightarrow> Inl e
      | Inr st' \<Rightarrow> migrate_loop aff clock (i + length xs) st' ys)"
  by (induction xs arbitrary: i st) (simp_all split: sum.splits)

lemma migrate_record_error: "migrate_record aff now st p = Inl e \<Longrightarrow> e = AttributeError"
  by (cases st; cases p)
     (auto simp: migrate_record_def Let_def split: sum.splits exn.splits if_splits)

lemma migrate_loop_error: "migrate_loop aff clock i st ps = Inl e \<Longrightarrow> e = AttributeError"
  by (induction ps arbitrary: i st) (auto split: sum.splits dest: migrate_record_error)

lemma migrate_record_extends:
  assumes "migrate_record aff now (d, n, es) p = Inr (d', n', es')"
  shows "\<exists>new. plants d' = plants d @ new"
proof (cases p)
  case (JObj kvs)
  with assms show ?thesis
    by (auto simp: migrate_record_obj split: if_splits sum.splits dest: sql_insert_appends)
qed (use assms in \<open>simp_all add: migrate_record_def\<close>)

lemma migrate_loop_extends:
  "migrate_loop aff clock i (d, n, es) ps = Inr (d', n', es') \<Longrightarrow> \<exists>new. plants d' = plants d @ new"
proof (induction ps arbitrary: i d n es)
  case Nil
  then show ?case by simp
next
  case (Cons p ps)
  from Cons.prems obtain d1 n1 es1 where
    step: "migrate_record aff (clock i) (d, n, es) p = Inr (d1, n1, es1)"
    and rest: "migrate_loop aff clock (Suc i) (d1, n1, es1) ps = Inr (d', n', es')"
    by (auto split: sum.splits)
  from migrate_record_extends[OF step] obtain new1 where "plants d1 = plants d @ new1" by blast
  moreover from Cons.IH[OF rest] obtain new2 where "plants d' = plants d1 @ new2" by blast
  ultimately show ?case by simp
qed

lemma migrate_extends:
  "\<exists>new. plants (fst (migrate_from_localstorage aff clock d data)) = plants d @ new"
  by (auto simp: migrate_from_localstorage_def split: sum.splits json.splits bool.splits prod.splits
      dest: migrate_loop_extends)

lemma migrate_record_existing:
  assumes acc: "import_accepts kvs"
      and bnd: "list_all (\<lambda>c. bindable (import_value kvs now c)) insert_columns"
      and ex: "list_ex (name_is (stored aff c_name (sql_of (dict_get kvs ''name'' JNull)))) (plants d)"
  shows "migrate_record aff now (d, n, es) (JObj kvs) =
           Inr (d, n, es @ [AlreadyExists (dict_get kvs ''name'' JNull)])"
proof -
  have nm: "import_value kvs now c_name = dict_get kvs ''name'' JNull"
    by (simp add: import_value_def legacy_key_def)
  have "\<exists>e. sql_insert aff d (map (\<lambda>c. sql_of (import_value kvs now c)) insert_columns) = Inl e"
    using ex by (auto simp: sql_insert_params nm split: option.splits)
  then show ?thesis using acc bnd by (auto simp: migrate_record_obj)
qed


text \<open>
  A batch of dicts always runs to its end, and every record of it is either counted or
  reported once.
\<close>

lemma import_isolates_dicts:
  assumes "list_all is_dict ps"
  shows "\<exists>d' n' es'. migrate_loop aff clock i (d, n, es) ps = Inr (d', n', es') \<and>
           n' + length es' = n + length es + length ps"
  using assms
proof (induction ps arbitrary: i d n es)
  case Nil
  then show ?case by simp
next
  case (Cons p ps)
  then obtain kvs where p: "p = JObj kvs" by (cases p) simp_all
  have "\<exists>d1 n1 es1. migrate_record aff (clock i) (d, n, es) p = Inr (d1, n1, es1) \<and>
          n1 + length es1 = n + length es + 1"
    by (simp add: p migrate_record_obj split: sum.splits)
  then obtain d1 n1 es1 where
    step: "migrate_record aff (clock i) (d, n, es) p = Inr (d1, n1, es1)"
      and cnt: "n1 + length es1 = n + length es + 1"
    by blast
  from Cons.IH[of "Suc i" d1 n1 es1] Cons.prems obtain d' n' es' where
    "migrate_loop aff clock (Suc i) (d1, n1, es1) ps = Inr (d', n', es')"
    "n' + length es' = n1 + length es1 + length ps"
    by auto
  with step cnt show ?case by simp
qed








text \<open>
  The error list only grows, and a record whose name a row of the table has when the
  request comes is reported as existing by the handler, whatever the other dicts of the
  batch are.
\<close>

lemma migrate_record_errors:
  assumes "migrate_record aff now (d, n, es) p = Inr (d', n', es')"
  shows "\<exists>more. es' = es @ more"
proof (cases p)
  case (JObj kvs)
  with assms show ?thesis
    by (auto simp: migrate_record_obj split: if_splits sum.splits)
qed (use assms in \<open>simp_all add: migrate_record_def\<close>)

lemma migrate_loop_errors:
  "migrate_loop aff clock i (d, n, es) ps = Inr (d', n', es') \<Longrightarrow> \<exists>more. es' = es @ more"
proof (induction ps arbitrary: i d n es)
  case Nil
  then show ?case by simp
next
  case (Cons p ps)
  from Cons.prems obtain d1 n1 es1 where
    step: "migrate_record aff (clock i) (d, n, es) p = Inr (d1, n1, es1)"
    and rest: "migrate_loop aff clock (Suc i) (d1, n1, es1) ps = Inr (d', n', es')"
    by (auto split: sum.splits)
  from migrate_record_errors[OF step] obtain m1 where "es1 = es @ m1" by blast
  moreover from Cons.IH[OF rest] obtain m2 where "es' = es1 @ m2" by blast
  ultimately show ?case by simp
qed

lemma migrate_skips_existing:
  assumes body: "map_of body ''plants'' = Some (JArr (before @ JObj kvs # after))"
      and dicts: "list_all is_dict before" "list_all is_dict after"
      and acc: "import_accepts kvs"
      and bnd: "list_all (\<lambda>c. bindable (import_value kvs (clock (length before)) c)) insert_columns"
      and ex: "list_ex (name_is (stored aff c_name (sql_of (dict_get kvs ''name'' JNull)))) (plants d)"
  shows "\<exists>d' count errors new.
           migrate_from_localstorage aff clock d (JObj body) = (d', 200, Report count errors) \<and>
           AlreadyExists (dict_get kvs ''name'' JNull) \<in> set errors \<and>
           plants d' = plants d @ new \<and>
           count + length errors = length (before @ JObj kvs # after)"
proof -
  let ?ae = "AlreadyExists (dict_get kvs ''name'' JNull)"
  from import_isolates_dicts[OF dicts(1), of aff clock 0 d 0 "[]"] obtain d1 n1 es1 where
    l1: "migrate_loop aff clock 0 (d, 0, []) before = Inr (d1, n1, es1)"
    and c1: "n1 + length es1 = 0 + length ([]::import_error list) + length before" by blast
  from migrate_loop_extends[OF l1] obtain new1 where new1: "plants d1 = plants d @ new1" by blast
  with ex have ex1: "list_ex (name_is (stored aff c_name (sql_of (dict_get kvs ''name'' JNull)))) (plants d1)"
    by (auto simp: list_ex_iff)
  have step: "migrate_record aff (clock (length before)) (d1, n1, es1) (JObj kvs) =
                Inr (d1, n1, es1 @ [?ae])"
    using acc bnd ex1 by (rule migrate_record_existing)
  from import_isolates_dicts[OF dicts(2), of aff clock "Suc (length before)" d1 n1 "es1 @ [?ae]"]
  obtain d' n es' where
    l3: "migrate_loop aff clock (Suc (length before)) (d1, n1, es1 @ [?ae]) after = Inr (d', n, es')"
    and c3: "n + length es' = n1 + length (es1 @ [?ae]) + length after" by blast
  from migrate_loop_errors[OF l3] obtain more where "es' = (es1 @ [?ae]) @ more" by blast
  then have mem: "?ae \<in> set es'" by simp
  from migrate_loop_extends[OF l3] obtain new3 where new3: "plants d' = plants d1 @ new3" by blast
  have loop: "migrate_loop aff clock 0 (d, 0, []) (before @ JObj kvs # after) = Inr (d', n, es')"
    using l1 step l3 by (simp add: migrate_loop_append)
  have tr: "truthy (JObj body)" using body by (cases body) auto
  have "py_in ''plants'' (JObj body) = Inr True"
    using body by (auto simp: map_of_eq_None_iff[symmetric] simp del: map_of_eq_None_iff)
  moreover have "py_index (JObj body) ''plants'' = Inr (JArr (before @ JObj kvs # after))"
    using body by simp
  ultimately have "migrate_from_localstorage aff clock d (JObj body) = (d', 200, Report n es')"
    using tr loop by (simp add: migrate_from_localstorage_def)
  moreover have "plants d' = plants d @ (new1 @ new3)" using new1 new3 by simp
  moreover have "n + length es' = length (before @ JObj kvs # after)" using c1 c3 by simp
  ultimately show ?thesis using mem by blast
qed

subsection \<open>Newest first\<close>

lemma xreal_le_total: "xreal_le a b \<or> xreal_le b a"
  by (cases a; cases b) auto

lemma xreal_le_trans: "xreal_le a b \<Longrightarrow> xreal_le b c \<Longrightarrow> xreal_le a c"
  by (cases a; cases b; cases c) auto

lemma sql_le_total: "sql_le a b \<or> sql_le b a"
  using xreal_le_total by (cases a; cases b) auto

lemma xreal_le_int: "xreal_le (Fin (real_of_int i)) (Fin (real_of_int j)) = (i \<le> j)"
  by simp

lemma sql_le_trans: "sql_le a b \<Longrightarrow> sql_le b c \<Longrightarrow> sql_le a c"
proof (cases a; cases b; cases c)
  fix i j :: int and x :: xreal
  assume "a = SInt i" "b = SInt j" "c = SReal x" "sql_le a b" "sql_le b c"
  then show "sql_le a c"
    using xreal_le_trans[of "Fin (real_of_int i)" "Fin (real_of_int j)" x] by simp
next
  fix i j :: int and x :: xreal
  assume "a = SInt i" "b = SReal x" "c = SInt j" "sql_le a b" "sql_le b c"
  then show "sql_le a c"
    using xreal_le_trans[of "Fin (real_of_int i)" x "Fin (real_of_int j)"] by simp
next
  fix i j :: int and x :: xreal
  assume "a = SReal x" "b = SInt i" "c = SInt j" "sql_le a b" "sql_le b c"
  then show "sql_le a c"
    using xreal_le_trans[of x "Fin (real_of_int i)" "Fin (real_of_int j)"] by simp
qed (auto intro: xreal_le_trans)

lemma mset_insert_desc: "mset (insert_desc r rs) = add_mset r (mset rs)"
  by (induction rs) simp_all

lemma set_insert_desc: "set (insert_desc r rs) = insert r (set rs)"
  by (induction rs) auto

lemma newest_first_insert_desc:
  "newest_first rs \<Longrightarrow> newest_first (insert_desc r rs)"
proof (induction rs)
  case Nil
  then show ?case by (simp add: newest_first_def)
next
  case (Cons x xs)
  show ?case
  proof (cases "sql_le (cells x c_timestamp) (cells r c_timestamp)")
    case True
    with Cons.prems show ?thesis
      by (auto simp: newest_first_def intro: sql_le_trans)
  next
    case False
    then have "sql_le (cells r c_timestamp) (cells x c_timestamp)"
      using sql_le_total by blast
    with False Cons show ?thesis
      by (auto simp: newest_first_def set_insert_desc)
  qed
qed

lemma mset_order_by: "mset (order_by_timestamp_desc rs) = mset rs"
  by (induction rs) (simp_all add: order_by_timestamp_desc_def mset_insert_desc)

lemma newest_first_order_by: "newest_first (order_by_timestamp_desc rs)"
proof (induction rs)
  case Nil
  show ?case by (simp add: order_by_timestamp_desc_def newest_first_def)
next
  case (Cons r rs)
  then show ?case
    using newest_first_insert_desc[of "order_by_timestamp_desc rs" r]
    by (simp add: order_by_timestamp_desc_def)
qed

lemma newest_first_positions:
  assumes "newest_first rs" "i < length rs" "j < length rs"
      and "sql_less (cells (rs ! i) c_timestamp) (cells (rs ! j) c_timestamp)"
  shows "j < i"
proof (rule ccontr)
  assume "\<not> j < i"
  then consider "i = j" | "i < j" by linarith
  then show False
  proof cases
    case 1
    with assms(4) show False by (simp add: sql_less_def)
  next
    case 2
    with assms(1,3) have "sql_le (cells (rs ! j) c_timestamp) (cells (rs ! i) c_timestamp)"
      by (simp add: newest_first_def sorted_wrt_iff_nth_less)
    with assms(4) show False by (simp add: sql_less_def)
  qed
qed

subsection \<open>Which exceptions reach the caller\<close>

lemma py_in_error: "py_in k data = Inl e \<Longrightarrow> e = TypeError"
  by (cases data) simp_all

lemma py_index_error: "py_index data k = Inl e \<Longrightarrow> e = TypeError \<or> e = KeyError"
  by (cases data) (auto split: option.splits)

lemma py_get_error: "py_get data k dflt = Inl e \<Longrightarrow> e = AttributeError"
  by (cases data) simp_all

lemma first_missing_error: "first_missing data fs = Inl e \<Longrightarrow> e = TypeError"
  by (induction fs) (auto split: sum.splits if_splits dest: py_in_error)

lemma sequence_err_error: "sequence_err ms = Inl e \<Longrightarrow> Inl e \<in> set ms"
  by (induction ms rule: sequence_err.induct) (auto split: sum.splits)

lemma bind_all_error: "bind_all js = Inl e \<Longrightarrow> e = BindError"
  by (simp add: bind_all_eq split: if_splits)

lemma execute_error:
  "execute stmt t = Inl e \<Longrightarrow> Inl e \<in> set t \<or> e = BindError \<or> (\<exists>vals. stmt vals = Inl e)"
  by (auto simp: execute_def split: sum.splits dest: sequence_err_error bind_all_error)

lemma sql_replace_by_name_error:
  "sql_replace_by_name aff d vals = Inl e \<Longrightarrow> \<exists>c. e = IntegrityError (NotNull c)"
  by (auto simp: sql_replace_by_name_def Let_def split: option.splits if_splits)

lemma create_update_tuple_error:
  "Inl e \<in> set (create_update_tuple data ts) \<Longrightarrow> e = TypeError \<or> e = KeyError \<or> e = AttributeError"
  by (auto simp: create_update_tuple_def dest: py_index_error[OF sym] py_get_error[OF sym])

lemma select_name_of_error:
  "select_name_of aff d data = Inl e \<Longrightarrow> e = TypeError \<or> e = KeyError \<or> e = BindError"
  by (auto simp: select_name_of_def bind_param_def split: sum.splits if_splits dest: py_index_error)

lemma create_plant_error:
  assumes "create_plant aff ts d data = (d', st, Failure (Exc e))"
  shows "e \<noteq> IntegrityError UniqueName"
proof
  assume u: "e = IntegrityError UniqueName"
  have a: "first_missing data required_fields \<noteq> Inl (IntegrityError UniqueName)"
    using first_missing_error by fastforce
  have b: "execute (sql_replace_by_name aff d) (create_update_tuple data ts) \<noteq>
             Inl (IntegrityError UniqueName)"
    using execute_error[of "sql_replace_by_name aff d" "create_update_tuple data ts" e]
      create_update_tuple_error[of e data ts] sql_replace_by_name_error[of aff d _ e] u
    by auto
  have c: "select_name_of aff x data \<noteq> Inl (IntegrityError UniqueName)" for x
    using select_name_of_error by fastforce
  from assms u a b c show False
    by (auto simp: create_plant_def split: if_splits sum.splits option.splits list.splits exn.splits)
qed

lemma migrate_error:
  assumes "migrate_from_localstorage aff clock d data = (d', st, Failure (Exc e))"
  shows "e = TypeError \<or> e = KeyError \<or> e = AttributeError"
  using assms
  by (auto simp: migrate_from_localstorage_def
      split: if_splits sum.splits bool.splits json.splits prod.splits
      dest: py_in_error py_index_error migrate_loop_error)

subsection \<open>The example tables are reachable\<close>

text \<open>The example database is what \<^verbatim>\<open>create_plant\<close> makes of an empty table.\<close>

lemmas model_defs =
  create_plant_def update_plant_def required_fields_def execute_def create_insert_tuple_def
  create_update_tuple_def update_tuple_def
  bind_all_def bind_param_def sql_insert_def sql_replace_by_name_def sql_merge_by_id_def
  assign_def insert_columns_def replace_columns_def not_null_columns_def
  select_name_of_def select_by_name_def select_by_id_def order_by_timestamp_desc_def name_is_def stored_def
  next_id_def numeric_affinity_def dict_get_def replace_row_def merge_row_def

lemma fern_db_reached:
  "create_plant numeric_affinity 1000 empty_db (JObj (fern_kvs @ [(''thickness'', JFloat (Fin 0.5))])) =
     (fern_db, 201, Plant thick_fern)"
proof -
  have "(\<lambda>c. stored numeric_affinity c (sql_of (create_value (fern_kvs @ [(''thickness'', JFloat (Fin 0.5))]) 1000 c)))
        = cells thick_fern"
    apply (rule ext)
    subgoal for c
      by (cases c) (simp_all add: thick_fern_def assign_def insert_columns_def stored_def
          numeric_affinity_def create_value_def dict_get_def fern_kvs_def)
    done
  then show ?thesis
    apply (subst create_plant_insert_aux)
    apply (simp_all add: fern_kvs_def required_fields_def create_value_def dict_get_def insert_columns_def
        not_null_columns_def empty_db_def)
    apply (simp_all add: fern_db_def next_id_def name_is_def thick_fern_def assign_def insert_columns_def Let_def)
    done
qed

lemma import_fern:
  "migrate_record numeric_affinity 1000 (empty_db, n, es) (JObj fern_kvs) = Inr (plain_fern_db, n + 1, es)"
proof -
  have "(\<lambda>c. stored numeric_affinity c (sql_of (import_value fern_kvs 1000 c))) = cells plain_fern"
    apply (rule ext)
    subgoal for c
      by (cases c) (simp_all add: plain_fern_def assign_def insert_columns_def stored_def
          numeric_affinity_def import_value_def legacy_key_def dict_get_def fern_kvs_def)
    done
  then have "sql_insert numeric_affinity empty_db
               (map (\<lambda>c. sql_of (import_value fern_kvs 1000 c)) insert_columns) = Inr plain_fern_db"
    by (simp add: sql_insert_params empty_db_def plain_fern_db_def next_id_def plain_fern_def)
       (simp add: not_null_columns_def import_value_def legacy_key_def dict_get_def fern_kvs_def
          next_id_def)
  moreover have "import_accepts fern_kvs"
    by (simp add: import_accepts_iff fern_kvs_def required_fields_def)
  moreover have "list_all (\<lambda>c. bindable (import_value fern_kvs 1000 c)) insert_columns"
    by (simp add: insert_columns_def import_value_def legacy_key_def dict_get_def fern_kvs_def)
  ultimately show ?thesis by (simp add: migrate_record_obj)
qed

lemma import_backdated_moss:
  "migrate_record numeric_affinity 1000 (plain_fern_db, n, es) (JObj backdated_moss_kvs) =
     Inr (backdated_db, n + 1, es)"
proof -
  have "(\<lambda>c. stored numeric_affinity c (sql_of (import_value backdated_moss_kvs 1000 c))) =
        cells backdated_moss"
    apply (rule ext)
    subgoal for c
      by (cases c) (simp_all add: backdated_moss_def assign_def insert_columns_def stored_def
          numeric_affinity_def import_value_def legacy_key_def dict_get_def backdated_moss_kvs_def)
    done
  then have ins: "sql_insert numeric_affinity plain_fern_db
               (map (\<lambda>c. sql_of (import_value backdated_moss_kvs 1000 c)) insert_columns) =
             Inr backdated_db"
    by (simp add: sql_insert_params plain_fern_db_def backdated_db_def next_id_def backdated_moss_def)
       (simp add: not_null_columns_def import_value_def legacy_key_def dict_get_def
          backdated_moss_kvs_def next_id_def plain_fern_def name_is_def stored_def assign_def
          insert_columns_def)
  have acc: "import_accepts backdated_moss_kvs"
    by (simp add: import_accepts_iff backdated_moss_kvs_def required_fields_def)
  have bnd: "list_all (\<lambda>c. bindable (import_value backdated_moss_kvs 1000 c)) insert_columns"
    by (simp add: insert_columns_def import_value_def legacy_key_def dict_get_def backdated_moss_kvs_def)
  show ?thesis
    using ins acc bnd by (simp add: migrate_record_obj)
qed

lemma garden_db_reached:
  "create_plant numeric_affinity 1500 fern_db (JObj moss_kvs) = (garden_db, 201, Plant moss)"
proof -
  have "(\<lambda>c. stored numeric_affinity c (sql_of (create_value moss_kvs 1500 c))) = cells moss"
    apply (rule ext)
    subgoal for c
      by (cases c) (simp_all add: moss_def assign_def insert_columns_def stored_def
          numeric_affinity_def create_value_def dict_get_def moss_kvs_def)
    done
  then show ?thesis
    apply (subst create_plant_insert_aux)
    apply (simp_all add: moss_kvs_def required_fields_def create_value_def dict_get_def insert_columns_def
        not_null_columns_def fern_db_def thick_fern_def name_is_def assign_def stored_def)
    apply (simp_all add: garden_db_def next_id_def name_is_def moss_def assign_def insert_columns_def
        Let_def thick_fern_def)
    done
qed

text \<open>
  The batch of the specification's last testable property, with N = 4: the fern, a second
  fern (a duplicate name), a record with nothing but a name (a required field missing)
  and a moss. Two records are counted, two are reported, and the moss, which comes after
  both failures, is stored.
\<close>

lemma import_example_batch:
  "migrate_from_localstorage numeric_affinity (\<lambda>i. 1000) empty_db
       (JObj [(''plants'',
               JArr [JObj fern_kvs, JObj fern2_kvs, JObj name_only_kvs, JObj backdated_moss_kvs])]) =
     (backdated_db, 200, Report 2 [AlreadyExists (JStr ''fern''), MissingFields (JStr ''fern'')])"
proof -
  have dup: "migrate_record numeric_affinity 1000 (plain_fern_db, 1, []) (JObj fern2_kvs) =
               Inr (plain_fern_db, 1, [AlreadyExists (JStr ''fern'')])"
    by (subst migrate_record_existing)
       (simp_all add: import_accepts_iff fern2_kvs_def required_fields_def insert_columns_def
          import_value_def legacy_key_def dict_get_def stored_def plain_fern_db_def name_is_def
          plain_fern_def assign_def)
  have mis: "migrate_record numeric_affinity 1000 (plain_fern_db, 1, es) (JObj name_only_kvs) =
               Inr (plain_fern_db, 1, es @ [MissingFields (JStr ''fern'')])" for es
    by (simp add: migrate_record_obj import_accepts_iff name_only_kvs_def required_fields_def
        dict_get_def)
  show ?thesis
    using import_fern[of 0 "[]"] dup mis
      import_backdated_moss[of 1 "[AlreadyExists (JStr ''fern''), MissingFields (JStr ''fern'')]"]
    by (simp add: migrate_from_localstorage_def)
qed

section \<open>The claims\<close>

text \<open>
  C1, as the code has it. When the input is a dict in which every required field is
  present and neither \<^verbatim>\<open>null\<close> nor NaN, every value it passes can be bound, and a row
  \<open>old\<close> has the input's name, \<^verbatim>\<open>create_plant\<close> answers 200 with that row replaced in place: same id and
  name, timestamp the handler's own, every other column the stored form of the input's
  value or, for an optional field that is absent, of its declared default; no other row
  changes.
\<close>

theorem create_replaces_existing:
  assumes req: "list_all (\<lambda>f. map_of kvs f \<noteq> None \<and> map_of kvs f \<noteq> Some JNull \<and>
                    map_of kvs f \<noteq> Some JNaN) required_fields"
      and bnd: "list_all (\<lambda>c. bindable (create_value kvs ts c)) insert_columns"
      and old: "find (name_is (stored aff c_name (sql_of (create_value kvs ts c_name)))) (plants d) = Some old"
  shows "\<exists>d' r. create_plant aff ts d (JObj kvs) = (d', 200, Plant r) \<and>
           rid r = rid old \<and> cells r c_name = cells old c_name \<and>
           cells r c_timestamp = SInt ts \<and>
           (\<forall>c. c \<noteq> c_name \<longrightarrow> cells r c = stored aff c (sql_of (create_value kvs ts c))) \<and>
           (\<forall>c\<in>set optional_columns. map_of kvs (field_key c) = None \<longrightarrow>
                cells r c = stored aff c (sql_of (field_default c))) \<and>
           last_id d' = last_id d \<and>
           plants d' =
             map (\<lambda>q. if name_is (stored aff c_name (sql_of (create_value kvs ts c_name))) q
                      then q\<lparr>cells := (\<lambda>c. if c = c_name then cells q c_name
                                          else stored aff c (sql_of (create_value kvs ts c)))\<rparr>
                      else q)
                 (plants d)"
proof -
  let ?p = "\<lambda>c. sql_of (create_value kvs ts c)"
  let ?key = "stored aff c_name (?p c_name)"
  let ?r = "replace_row aff ?p old"
  let ?d' = "d\<lparr>plants := map (\<lambda>q. if name_is ?key q then replace_row aff ?p q else q) (plants d)\<rparr>"
  have eq: "create_plant aff ts d (JObj kvs) = (?d', 200, Plant ?r)"
    using req bnd old by (rule create_plant_replace)
  have id: "rid ?r = rid old" "cells ?r c_name = cells old c_name"
    by (simp_all add: replace_row_def)
  have tm: "cells ?r c_timestamp = SInt ts"
    by (simp add: replace_row_def create_value_def stored_timestamp)
  have oth: "\<forall>c. c \<noteq> c_name \<longrightarrow> cells ?r c = stored aff c (?p c)"
    by (simp add: replace_row_def)
  have opt: "\<forall>c\<in>set optional_columns. map_of kvs (field_key c) = None \<longrightarrow>
               cells ?r c = stored aff c (sql_of (field_default c))"
    by (auto simp: optional_columns_def replace_row_def create_value_def dict_get_def)
  have db: "last_id ?d' = last_id d"
    "plants ?d' = map (\<lambda>q. if name_is ?key q
                      then q\<lparr>cells := (\<lambda>c. if c = c_name then cells q c_name else stored aff c (?p c))\<rparr>
                      else q) (plants d)"
    by (simp_all add: replace_row_def)
  from eq id tm oth opt db show ?thesis by blast
qed

theorem create_replaces_existing_witness:
  "list_all (\<lambda>f. map_of fern_kvs f \<noteq> None \<and> map_of fern_kvs f \<noteq> Some JNull \<and>
                    map_of fern_kvs f \<noteq> Some JNaN) required_fields \<and>
   list_all (\<lambda>c. bindable (create_value fern_kvs 2000 c)) insert_columns \<and>
   find (name_is (stored numeric_affinity c_name (sql_of (create_value fern_kvs 2000 c_name))))
     (plants fern_db) = Some thick_fern \<and>
   cells thick_fern c_thickness = SReal (Fin 0.5) \<and>
   (\<exists>d' r. create_plant numeric_affinity 2000 fern_db (JObj fern_kvs) = (d', 200, Plant r) \<and>
      rid r = 1 \<and> cells r c_name = SText ''fern'' \<and> cells r c_timestamp = SInt 2000 \<and>
      cells r c_thickness = SReal (Fin 0.1) \<and> length (plants d') = 1)"
proof -
  have h1: "list_all (\<lambda>f. map_of fern_kvs f \<noteq> None \<and> map_of fern_kvs f \<noteq> Some JNull \<and>
                    map_of fern_kvs f \<noteq> Some JNaN) required_fields"
    by (simp add: fern_kvs_def required_fields_def)
  have h2: "list_all (\<lambda>c. bindable (create_value fern_kvs 2000 c)) insert_columns"
    by (simp add: fern_kvs_def insert_columns_def create_value_def dict_get_def)
  have h3: "find (name_is (stored numeric_affinity c_name (sql_of (create_value fern_kvs 2000 c_name))))
              (plants fern_db) = Some thick_fern"
    by (simp add: fern_kvs_def create_value_def dict_get_def stored_def fern_db_def name_is_def
        thick_fern_def assign_def insert_columns_def)
  have t: "cells thick_fern c_thickness = SReal (Fin 0.5)" "rid thick_fern = 1"
      "cells thick_fern c_name = SText ''fern''"
    by (simp_all add: thick_fern_def assign_def insert_columns_def)
  have o: "c_thickness \<in> set optional_columns" "map_of fern_kvs (field_key c_thickness) = None"
    by (simp_all add: optional_columns_def fern_kvs_def)
  from create_replaces_existing[OF h1 h2 h3] obtain d' r where
    r: "create_plant numeric_affinity 2000 fern_db (JObj fern_kvs) = (d', 200, Plant r)"
       "rid r = rid thick_fern" "cells r c_name = cells thick_fern c_name"
       "cells r c_timestamp = SInt 2000"
       "\<forall>c\<in>set optional_columns. map_of fern_kvs (field_key c) = None \<longrightarrow>
           cells r c = stored numeric_affinity c (sql_of (field_default c))"
       "plants d' =
             map (\<lambda>q. if name_is (stored numeric_affinity c_name (sql_of (create_value fern_kvs 2000 c_name))) q
                      then q\<lparr>cells := (\<lambda>c. if c = c_name then cells q c_name
                                          else stored numeric_affinity c (sql_of (create_value fern_kvs 2000 c)))\<rparr>
                      else q)
                 (plants fern_db)"
    by blast
  from r(5) o have "cells r c_thickness = stored numeric_affinity c_thickness (sql_of (field_default c_thickness))"
    by blast
  then have th: "cells r c_thickness = SReal (Fin 0.1)" by (simp add: stored_def)
  have len: "length (plants d') = 1" unfolding r(6) by (simp add: fern_db_def)
  show ?thesis using h1 h2 h3 t r(1-4) th len by auto
qed

text \<open>
  C1 as stated fails: an input can contain every required field and name an existing row
  and still be answered 500 with nothing written, when a required field is \<^verbatim>\<open>null\<close> or
  NaN (both are bound as NULL, and the \<^verbatim>\<open>UPDATE\<close> of the \<^verbatim>\<open>except\<close> branch violates
  \<^verbatim>\<open>NOT NULL\<close>) or a value is a dict (it cannot be bound).
\<close>

theorem create_replaces_existing_counterexample:
  "list_all (\<lambda>f. map_of null_axiom_kvs f \<noteq> None) required_fields \<and>
   list_ex (name_is (SText ''fern'')) (plants fern_db) \<and>
   create_plant numeric_affinity 2000 fern_db (JObj null_axiom_kvs) =
     (fern_db, 500, Failure (Exc (IntegrityError (NotNull c_axiom)))) \<and>
   list_all (\<lambda>f. map_of nan_angle_kvs f \<noteq> None \<and> map_of nan_angle_kvs f \<noteq> Some JNull)
     required_fields \<and>
   create_plant numeric_affinity 2000 fern_db (JObj nan_angle_kvs) =
     (fern_db, 500, Failure (Exc (IntegrityError (NotNull c_angle)))) \<and>
   list_all (\<lambda>f. map_of dict_rules_kvs f \<noteq> None \<and> map_of dict_rules_kvs f \<noteq> Some JNull \<and>
                    map_of dict_rules_kvs f \<noteq> Some JNaN) required_fields \<and>
   create_plant numeric_affinity 2000 fern_db (JObj dict_rules_kvs) =
     (fern_db, 500, Failure (Exc BindError))"
  by (simp add: model_defs null_axiom_kvs_def nan_angle_kvs_def dict_rules_kvs_def fern_db_def
      thick_fern_def)

text \<open>
  C2, as the code has it. For an existing id and a non-empty dict whose values can all be
  bound, \<^verbatim>\<open>update_plant\<close> answers 200 with the row merged: each column takes the stored
  form of the input's value when the field is present and neither \<^verbatim>\<open>null\<close> nor NaN (NaN is
  bound as NULL, and \<^verbatim>\<open>COALESCE\<close> passes over it) and keeps its stored value otherwise, the timestamp is the handler's own, the id and every other row
  are unchanged, and no default is applied. This is stated for inputs whose new name is
  not the name of another row.
\<close>

theorem update_merges_input:
  assumes ne: "kvs \<noteq> []"
      and old: "find (\<lambda>q. rid q = plant_id) (plants d) = Some old"
      and pk: "distinct (map rid (plants d))"
      and bnd: "list_all (\<lambda>c. bindable (update_value kvs ts c)) insert_columns"
      and free: "list_all (\<lambda>q. rid q = plant_id \<or>
                   \<not> name_is (case map_of kvs ''name'' of
                                 None \<Rightarrow> cells old c_name
                               | Some v \<Rightarrow> if v = JNull \<or> v = JNaN then cells old c_name
                                           else stored aff c_name (sql_of v)) q)
                 (plants d)"
  shows "\<exists>d' r. update_plant aff ts d plant_id (JObj kvs) = (d', 200, Plant r) \<and>
           rid r = rid old \<and>
           cells r c_timestamp = SInt ts \<and>
           (\<forall>c. c \<noteq> c_timestamp \<longrightarrow>
              cells r c = (case map_of kvs (field_key c) of
                             None \<Rightarrow> cells old c
                           | Some v \<Rightarrow> if v = JNull \<or> v = JNaN then cells old c else stored aff c (sql_of v))) \<and>
           last_id d' = last_id d \<and>
           plants d' = map (\<lambda>q. if rid q = plant_id then r else q) (plants d)"
proof -
  let ?p = "\<lambda>c. sql_of (update_value kvs ts c)"
  let ?r = "merge_row aff ?p old"
  let ?d' = "d\<lparr>plants := map (\<lambda>q. if rid q = plant_id then ?r else q) (plants d)\<rparr>"
  have b: "bindable (update_value kvs ts c)" for c
    using bnd by (cases c) (simp_all add: insert_columns_def)
  have cell: "cells ?r c = (case map_of kvs (field_key c) of
                             None \<Rightarrow> cells old c
                           | Some v \<Rightarrow> if v = JNull \<or> v = JNaN then cells old c else stored aff c (sql_of v))"
    if "c \<noteq> c_timestamp" for c
    using that b[of c] sql_of_null[of "update_value kvs ts c"]
    by (auto simp: merge_row_def update_value_def dict_get_def split: option.splits)
  have free': "\<not> list_ex (\<lambda>q. rid q \<noteq> plant_id \<and> name_is (cells ?r c_name) q) (plants d)"
    using free cell[of c_name] by (auto simp: list_ex_iff list_all_iff)
  have eq: "update_plant aff ts d plant_id (JObj kvs) = (?d', 200, Plant ?r)"
    using ne old pk bnd free' by (rule update_plant_merge)
  have id: "rid ?r = rid old" by (simp add: merge_row_def)
  have tm: "cells ?r c_timestamp = SInt ts"
    by (simp add: merge_row_def update_value_def stored_timestamp)
  have db: "last_id ?d' = last_id d"
    "plants ?d' = map (\<lambda>q. if rid q = plant_id then ?r else q) (plants d)"
    by simp_all
  from eq id tm cell db show ?thesis by blast
qed

theorem update_merges_input_witness:
  "[(''angle'', JInt 30)] \<noteq> [] \<and>
   find (\<lambda>q. rid q = 1) (plants fern_db) = Some thick_fern \<and>
   distinct (map rid (plants fern_db)) \<and>
   list_all (\<lambda>c. bindable (update_value [(''angle'', JInt 30)] 2000 c)) insert_columns \<and>
   list_all (\<lambda>q. rid q = 1 \<or>
               \<not> name_is (case map_of [(''angle'', JInt 30)] ''name'' of
                             None \<Rightarrow> cells thick_fern c_name
                           | Some v \<Rightarrow> if v = JNull \<or> v = JNaN then cells thick_fern c_name
                                       else stored numeric_affinity c_name (sql_of v)) q)
     (plants fern_db) \<and>
   cells thick_fern c_thickness = SReal (Fin 0.5) \<and>
   (\<exists>d' r. update_plant numeric_affinity 2000 fern_db 1 (JObj [(''angle'', JInt 30)]) = (d', 200, Plant r) \<and>
      rid r = 1 \<and> cells r c_timestamp = SInt 2000 \<and> cells r c_angle = SReal (Fin 30) \<and>
      cells r c_thickness = SReal (Fin 0.5) \<and> cells r c_name = SText ''fern'')"
proof -
  have h2: "find (\<lambda>q. rid q = 1) (plants fern_db) = Some thick_fern"
    by (simp add: fern_db_def thick_fern_def)
  have h3: "distinct (map rid (plants fern_db))"
    by (simp add: fern_db_def)
  have h4: "list_all (\<lambda>c. bindable (update_value [(''angle'', JInt 30)] 2000 c)) insert_columns"
    by (simp add: insert_columns_def update_value_def dict_get_def)
  have h5: "list_all (\<lambda>q. rid q = 1 \<or>
                   \<not> name_is (case map_of [(''angle'', JInt 30)] ''name'' of
                                 None \<Rightarrow> cells thick_fern c_name
                               | Some v \<Rightarrow> if v = JNull \<or> v = JNaN then cells thick_fern c_name
                                           else stored numeric_affinity c_name (sql_of v)) q)
                 (plants fern_db)"
    by (simp add: fern_db_def thick_fern_def)
  have t: "cells thick_fern c_thickness = SReal (Fin 0.5)" "rid thick_fern = 1"
      "cells thick_fern c_name = SText ''fern''"
    by (simp_all add: thick_fern_def assign_def insert_columns_def)
  from update_merges_input[of "[(''angle'', JInt 30)]" 1 fern_db thick_fern 2000 numeric_affinity,
      OF _ h2 h3 h4 h5]
  obtain d' r where
    r: "update_plant numeric_affinity 2000 fern_db 1 (JObj [(''angle'', JInt 30)]) = (d', 200, Plant r)"
       "rid r = rid thick_fern" "cells r c_timestamp = SInt 2000"
       "\<forall>c. c \<noteq> c_timestamp \<longrightarrow>
              cells r c = (case map_of [(''angle'', JInt 30)] (field_key c) of
                             None \<Rightarrow> cells thick_fern c
                           | Some v \<Rightarrow> if v = JNull \<or> v = JNaN then cells thick_fern c
                                       else stored numeric_affinity c (sql_of v))"
    by blast
  have "cells r c_angle = SReal (Fin 30)" "cells r c_thickness = SReal (Fin 0.5)" "cells r c_name = SText ''fern''"
    using r(4)[rule_format, of c_angle] r(4)[rule_format, of c_thickness] r(4)[rule_format, of c_name] t
    by (simp_all add: stored_def numeric_affinity_def)
  with h2 h3 h4 h5 t r(1-3) show ?thesis by auto
qed

text \<open>
  C2 as stated fails: an empty dict is answered 400 and the timestamp stays as it was; a
  body that is a list has no \<^verbatim>\<open>get\<close> and is answered 500; a dict value cannot be bound and
  is answered 500; an angle that is NaN is present and not \<^verbatim>\<open>null\<close>, and the angle stays 25;
  and a name that another row has is answered 500 with the constraint's message, the row
  left as it was.
\<close>

theorem update_merges_input_counterexample:
  "find (\<lambda>q. rid q = 1) (plants fern_db) = Some thick_fern \<and>
   cells thick_fern c_timestamp = SInt 1000 \<and>
   update_plant numeric_affinity 2000 fern_db 1 (JObj []) = (fern_db, 400, Failure NoJsonData) \<and>
   update_plant numeric_affinity 2000 fern_db 1 (JArr [JStr ''fern'']) =
     (fern_db, 500, Failure (Exc AttributeError)) \<and>
   update_plant numeric_affinity 2000 fern_db 1 (JObj [(''rules'', JObj [(''F'', JStr ''FF'')])]) =
     (fern_db, 500, Failure (Exc BindError)) \<and>
   cells thick_fern c_angle = SReal (Fin 25) \<and>
   fst (snd (update_plant numeric_affinity 2000 fern_db 1 (JObj [(''angle'', JNaN)]))) = 200 \<and>
   answered_cell (update_plant numeric_affinity 2000 fern_db 1 (JObj [(''angle'', JNaN)])) c_angle =
     Some (SReal (Fin 25)) \<and>
   find (\<lambda>q. rid q = 2) (plants garden_db) = Some moss \<and>
   update_plant numeric_affinity 2000 garden_db 2 (JObj [(''name'', JStr ''fern'')]) =
     (garden_db, 500, Failure (Exc (IntegrityError UniqueName)))"
  by (simp add: model_defs fern_db_def garden_db_def thick_fern_def moss_def)

text \<open>
  C3, as the code has it. \<^verbatim>\<open>create_plant\<close> and the import never answer with the
  name-uniqueness failure. \<^verbatim>\<open>create_plant\<close> turns a taken name into a replace (200) when
  the required fields are neither \<^verbatim>\<open>null\<close> nor NaN and every value can be bound; the
  import turns it into a skipped record with an ``already exists'' entry, the stored row
  left as it is; so does the handler \<^verbatim>\<open>migrate_from_localstorage\<close> for a batch of dicts:
  it answers 200, its report has that entry, the rows stored before are all still there,
  and every record of the batch is either counted or reported.
  (For \<^verbatim>\<open>update_plant\<close> nothing is stated here.)
\<close>

theorem name_collisions_resolved:
  "snd (snd (create_plant aff ts d data)) \<noteq> Failure (Exc (IntegrityError UniqueName)) \<and>
   snd (snd (migrate_from_localstorage aff clock d data)) \<noteq> Failure (Exc (IntegrityError UniqueName)) \<and>
   (list_all (\<lambda>f. map_of kvs f \<noteq> None \<and> map_of kvs f \<noteq> Some JNull \<and>
                    map_of kvs f \<noteq> Some JNaN) required_fields \<and>
    list_all (\<lambda>c. bindable (create_value kvs ts c)) insert_columns \<and>
    list_ex (name_is (stored aff c_name (sql_of (create_value kvs ts c_name)))) (plants d) \<longrightarrow>
      fst (snd (create_plant aff ts d (JObj kvs))) = 200) \<and>
   (import_accepts kvs \<and>
    list_all (\<lambda>c. bindable (import_value kvs ts c)) insert_columns \<and>
    list_ex (name_is (stored aff c_name (sql_of (dict_get kvs ''name'' JNull)))) (plants d) \<longrightarrow>
      migrate_record aff ts (d, n, es) (JObj kvs) =
        Inr (d, n, es @ [AlreadyExists (dict_get kvs ''name'' JNull)])) \<and>
   (map_of body ''plants'' = Some (JArr (before @ JObj plant_data # after)) \<and>
    list_all is_dict before \<and> list_all is_dict after \<and>
    import_accepts plant_data \<and>
    list_all (\<lambda>c. bindable (import_value plant_data (clock (length before)) c)) insert_columns \<and>
    list_ex (name_is (stored aff c_name (sql_of (dict_get plant_data ''name'' JNull)))) (plants d) \<longrightarrow>
      (\<exists>d' count errors new.
         migrate_from_localstorage aff clock d (JObj body) = (d', 200, Report count errors) \<and>
         AlreadyExists (dict_get plant_data ''name'' JNull) \<in> set errors \<and>
         plants d' = plants d @ new \<and>
         count + length errors = length (before @ JObj plant_data # after)))"
proof (intro conjI impI)
  show "snd (snd (create_plant aff ts d data)) \<noteq> Failure (Exc (IntegrityError UniqueName))"
    using create_plant_error[of aff ts d data]
    by (cases "create_plant aff ts d data") auto
  show "snd (snd (migrate_from_localstorage aff clock d data)) \<noteq> Failure (Exc (IntegrityError UniqueName))"
    using migrate_error[of aff clock d data]
    by (cases "migrate_from_localstorage aff clock d data") auto
next
  assume h: "list_all (\<lambda>f. map_of kvs f \<noteq> None \<and> map_of kvs f \<noteq> Some JNull \<and>
                    map_of kvs f \<noteq> Some JNaN) required_fields \<and>
    list_all (\<lambda>c. bindable (create_value kvs ts c)) insert_columns \<and>
    list_ex (name_is (stored aff c_name (sql_of (create_value kvs ts c_name)))) (plants d)"
  then obtain old where
    "find (name_is (stored aff c_name (sql_of (create_value kvs ts c_name)))) (plants d) = Some old"
    using find_Some_iff_ex by blast
  with h show "fst (snd (create_plant aff ts d (JObj kvs))) = 200"
    by (simp add: create_plant_replace)
next
  assume "import_accepts kvs \<and>
    list_all (\<lambda>c. bindable (import_value kvs ts c)) insert_columns \<and>
    list_ex (name_is (stored aff c_name (sql_of (dict_get kvs ''name'' JNull)))) (plants d)"
  then show "migrate_record aff ts (d, n, es) (JObj kvs) =
        Inr (d, n, es @ [AlreadyExists (dict_get kvs ''name'' JNull)])"
    by (simp add: migrate_record_existing)
next
  assume "map_of body ''plants'' = Some (JArr (before @ JObj plant_data # after)) \<and>
    list_all is_dict before \<and> list_all is_dict after \<and>
    import_accepts plant_data \<and>
    list_all (\<lambda>c. bindable (import_value plant_data (clock (length before)) c)) insert_columns \<and>
    list_ex (name_is (stored aff c_name (sql_of (dict_get plant_data ''name'' JNull)))) (plants d)"
  then show "\<exists>d' count errors new.
         migrate_from_localstorage aff clock d (JObj body) = (d', 200, Report count errors) \<and>
         AlreadyExists (dict_get plant_data ''name'' JNull) \<in> set errors \<and>
         plants d' = plants d @ new \<and>
         count + length errors = length (before @ JObj plant_data # after)"
    using migrate_skips_existing[of body before plant_data after clock aff d] by blast
qed

theorem name_collisions_resolved_witness:
  "list_all (\<lambda>f. map_of fern2_kvs f \<noteq> None \<and> map_of fern2_kvs f \<noteq> Some JNull \<and>
                    map_of fern2_kvs f \<noteq> Some JNaN) required_fields \<and>
   list_all (\<lambda>c. bindable (create_value fern2_kvs 2000 c)) insert_columns \<and>
   list_ex (name_is (stored numeric_affinity c_name (sql_of (create_value fern2_kvs 2000 c_name))))
     (plants fern_db) \<and>
   fst (snd (create_plant numeric_affinity 2000 fern_db (JObj fern2_kvs))) = 200 \<and>
   import_accepts fern2_kvs \<and>
   list_all (\<lambda>c. bindable (import_value fern2_kvs 2000 c)) insert_columns \<and>
   list_ex (name_is (stored numeric_affinity c_name (sql_of (dict_get fern2_kvs ''name'' JNull))))
     (plants fern_db) \<and>
   migrate_record numeric_affinity 2000 (fern_db, 0, []) (JObj fern2_kvs) =
     Inr (fern_db, 0, [AlreadyExists (JStr ''fern'')]) \<and>
   map_of [(''plants'', JArr [JObj moss_kvs, JObj fern2_kvs])] ''plants'' =
     Some (JArr ([JObj moss_kvs] @ JObj fern2_kvs # [])) \<and>
   list_all is_dict [JObj moss_kvs] \<and> list_all is_dict [] \<and>
   (\<exists>d' count errors new.
      migrate_from_localstorage numeric_affinity (\<lambda>i. 2000) fern_db
          (JObj [(''plants'', JArr [JObj moss_kvs, JObj fern2_kvs])]) =
        (d', 200, Report count errors) \<and>
      AlreadyExists (JStr ''fern'') \<in> set errors \<and>
      plants d' = plants fern_db @ new \<and> count + length errors = 2)"
proof -
  have h1: "list_all (\<lambda>f. map_of fern2_kvs f \<noteq> None \<and> map_of fern2_kvs f \<noteq> Some JNull \<and>
                    map_of fern2_kvs f \<noteq> Some JNaN) required_fields"
    by (simp add: fern2_kvs_def required_fields_def)
  have h2: "list_all (\<lambda>c. bindable (create_value fern2_kvs 2000 c)) insert_columns"
    by (simp add: fern2_kvs_def insert_columns_def create_value_def dict_get_def)
  have h3: "list_ex (name_is (stored numeric_affinity c_name (sql_of (create_value fern2_kvs 2000 c_name))))
              (plants fern_db)"
    by (simp add: fern2_kvs_def create_value_def dict_get_def stored_def fern_db_def name_is_def
        thick_fern_def assign_def insert_columns_def)
  have h4: "import_accepts fern2_kvs"
    by (simp add: import_accepts_iff fern2_kvs_def required_fields_def)
  have h5: "list_all (\<lambda>c. bindable (import_value fern2_kvs 2000 c)) insert_columns"
    by (simp add: insert_columns_def import_value_def legacy_key_def dict_get_def fern2_kvs_def)
  have h6: "list_ex (name_is (stored numeric_affinity c_name (sql_of (dict_get fern2_kvs ''name'' JNull))))
              (plants fern_db)"
    by (simp add: fern2_kvs_def dict_get_def stored_def fern_db_def name_is_def
        thick_fern_def assign_def insert_columns_def)
  have nm: "dict_get fern2_kvs ''name'' JNull = JStr ''fern''"
    by (simp add: fern2_kvs_def dict_get_def)
  note t = name_collisions_resolved[where aff = numeric_affinity and ts = 2000 and d = fern_db
      and kvs = fern2_kvs and n = 0 and es = "[]" and clock = "\<lambda>i. 2000"
      and body = "[(''plants'', JArr [JObj moss_kvs, JObj fern2_kvs])]"
      and before = "[JObj moss_kvs]" and plant_data = fern2_kvs and after = "[]",
      THEN conjunct2, THEN conjunct2]
  from t[THEN conjunct1] h1 h2 h3
  have c: "fst (snd (create_plant numeric_affinity 2000 fern_db (JObj fern2_kvs))) = 200"
    by blast
  from t[THEN conjunct2, THEN conjunct1] h4 h5 h6
  have "migrate_record numeric_affinity 2000 (fern_db, 0, []) (JObj fern2_kvs) =
     Inr (fern_db, 0, [] @ [AlreadyExists (dict_get fern2_kvs ''name'' JNull)])"
    by blast
  then have m: "migrate_record numeric_affinity 2000 (fern_db, 0, []) (JObj fern2_kvs) =
     Inr (fern_db, 0, [AlreadyExists (JStr ''fern'')])"
    by (simp add: nm)
  have b1: "map_of [(''plants'', JArr [JObj moss_kvs, JObj fern2_kvs])] ''plants'' =
     Some (JArr ([JObj moss_kvs] @ JObj fern2_kvs # []))"
    by simp
  have b2: "list_all is_dict [JObj moss_kvs]" "list_all is_dict []" by simp_all
  from t[THEN conjunct2, THEN conjunct2] b1 b2 h4 h5 h6
  have "\<exists>d' count errors new.
      migrate_from_localstorage numeric_affinity (\<lambda>i. 2000) fern_db
          (JObj [(''plants'', JArr [JObj moss_kvs, JObj fern2_kvs])]) =
        (d', 200, Report count errors) \<and>
      AlreadyExists (dict_get fern2_kvs ''name'' JNull) \<in> set errors \<and>
      plants d' = plants fern_db @ new \<and>
      count + length errors = length ([JObj moss_kvs] @ JObj fern2_kvs # [])"
    by simp
  then have b: "\<exists>d' count errors new.
      migrate_from_localstorage numeric_affinity (\<lambda>i. 2000) fern_db
          (JObj [(''plants'', JArr [JObj moss_kvs, JObj fern2_kvs])]) =
        (d', 200, Report count errors) \<and>
      AlreadyExists (JStr ''fern'') \<in> set errors \<and>
      plants d' = plants fern_db @ new \<and> count + length errors = 2"
    by (simp add: nm numeral_2_eq_2)
  from h1 h2 h3 c h4 h5 h6 m b1 b2 b show ?thesis by (intro conjI) assumption+
qed

text \<open>
  C3 as stated fails. \<^verbatim>\<open>update_plant\<close> catches no \<^verbatim>\<open>sqlite3.IntegrityError\<close>: renaming the
  moss to the name of the fern is answered 500 with the constraint's message. The import
  does not merge: a record with the name of the stored fern is skipped and the fern keeps
  its rules, where \<^verbatim>\<open>create_plant\<close> would have replaced them. And \<^verbatim>\<open>create_plant\<close> itself
  does not reach the replace when a required value is bound as NULL: with the fern's name
  and an angle that is NaN it answers 500.
\<close>

theorem name_collisions_resolved_counterexample:
  "update_plant numeric_affinity 2000 garden_db 2 (JObj [(''name'', JStr ''fern'')]) =
     (garden_db, 500, Failure (Exc (IntegrityError UniqueName))) \<and>
   migrate_from_localstorage numeric_affinity (\<lambda>i. 2000) fern_db
       (JObj [(''plants'', JArr [JObj fern2_kvs])]) =
     (fern_db, 200, Report 0 [AlreadyExists (JStr ''fern'')]) \<and>
   cells thick_fern c_rules = SText ''F->F[+F]F[-F]'' \<and>
   dict_get fern2_kvs ''rules'' JNull = JStr ''F'' \<and>
   snd (create_plant numeric_affinity 2000 fern_db (JObj nan_angle_kvs)) =
     (500, Failure (Exc (IntegrityError (NotNull c_angle))))"
proof -
  have u: "update_plant numeric_affinity 2000 garden_db 2 (JObj [(''name'', JStr ''fern'')]) =
     (garden_db, 500, Failure (Exc (IntegrityError UniqueName)))"
    by (simp add: model_defs garden_db_def thick_fern_def moss_def)
  have "migrate_record numeric_affinity 2000 (fern_db, 0, []) (JObj fern2_kvs) =
          Inr (fern_db, 0, [AlreadyExists (JStr ''fern'')])"
    by (subst migrate_record_existing)
       (simp_all add: import_accepts_iff fern2_kvs_def required_fields_def insert_columns_def
          import_value_def legacy_key_def dict_get_def stored_def fern_db_def name_is_def
          thick_fern_def assign_def)
  then have m: "migrate_from_localstorage numeric_affinity (\<lambda>i. 2000) fern_db
       (JObj [(''plants'', JArr [JObj fern2_kvs])]) =
     (fern_db, 200, Report 0 [AlreadyExists (JStr ''fern'')])"
    by (simp add: migrate_from_localstorage_def)
  have r: "cells thick_fern c_rules = SText ''F->F[+F]F[-F]''"
    "dict_get fern2_kvs ''rules'' JNull = JStr ''F''"
    by (simp_all add: thick_fern_def assign_def insert_columns_def fern2_kvs_def dict_get_def)
  have c: "snd (create_plant numeric_affinity 2000 fern_db (JObj nan_angle_kvs)) =
     (500, Failure (Exc (IntegrityError (NotNull c_angle))))"
    by (simp add: model_defs nan_angle_kvs_def fern_db_def thick_fern_def)
  from u m r c show ?thesis by blast
qed

text \<open>
  C4, as the code has it. A record that passes the import's validation, whose values can
  all be bound, and whose name is the name of a row stored when its turn comes (before the
  batch or by an earlier record of it) contributes one ``already exists'' entry and
  nothing else: the loop goes on from the same table and the same count. And whatever
  the request, the import only appends rows: the rows stored before it are all still
  there, unchanged and in place.
\<close>

theorem import_skips_existing_name:
  assumes run: "migrate_loop aff clock i st before = Inr (d1, n1, es1)"
      and acc: "import_accepts kvs"
      and bnd: "list_all (\<lambda>c. bindable (import_value kvs (clock (i + length before)) c)) insert_columns"
      and ex: "list_ex (name_is (stored aff c_name (sql_of (dict_get kvs ''name'' JNull)))) (plants d1)"
  shows "migrate_loop aff clock i st (before @ JObj kvs # after) =
           migrate_loop aff clock (Suc (i + length before))
             (d1, n1, es1 @ [AlreadyExists (dict_get kvs ''name'' JNull)]) after \<and>
         (\<exists>new. plants (fst (migrate_from_localstorage aff clock d data)) = plants d @ new)"
proof -
  have "migrate_loop aff clock i st (before @ JObj kvs # after) =
           migrate_loop aff clock (Suc (i + length before))
             (d1, n1, es1 @ [AlreadyExists (dict_get kvs ''name'' JNull)]) after"
    by (simp add: migrate_loop_append run migrate_record_existing[OF acc bnd ex])
  with migrate_extends show ?thesis by blast
qed

theorem import_skips_existing_name_witness:
  "migrate_loop numeric_affinity (\<lambda>i. 1000) 0 (empty_db, 0, []) [JObj fern_kvs] =
     Inr (plain_fern_db, 1, []) \<and>
   import_accepts fern2_kvs \<and>
   list_all (\<lambda>c. bindable (import_value fern2_kvs 1000 c)) insert_columns \<and>
   list_ex (name_is (stored numeric_affinity c_name (sql_of (dict_get fern2_kvs ''name'' JNull))))
     (plants plain_fern_db) \<and>
   migrate_loop numeric_affinity (\<lambda>i. 1000) 0 (empty_db, 0, []) [JObj fern_kvs, JObj fern2_kvs] =
     Inr (plain_fern_db, 1, [AlreadyExists (JStr ''fern'')]) \<and>
   migrate_from_localstorage numeric_affinity (\<lambda>i. 1000) empty_db
       (JObj [(''plants'', JArr [JObj fern_kvs, JObj fern2_kvs])]) =
     (plain_fern_db, 200, Report 1 [AlreadyExists (JStr ''fern'')])"
proof -
  have h1: "migrate_loop numeric_affinity (\<lambda>i. 1000) 0 (empty_db, 0, []) [JObj fern_kvs] =
              Inr (plain_fern_db, 1, [])"
    by (simp add: import_fern)
  have h2: "import_accepts fern2_kvs"
    by (simp add: import_accepts_iff fern2_kvs_def required_fields_def)
  have h3: "list_all (\<lambda>c. bindable (import_value fern2_kvs ((\<lambda>i. 1000) (0 + length [JObj fern_kvs])) c))
              insert_columns"
    by (simp add: insert_columns_def import_value_def legacy_key_def dict_get_def fern2_kvs_def)
  have h4: "list_ex (name_is (stored numeric_affinity c_name (sql_of (dict_get fern2_kvs ''name'' JNull))))
              (plants plain_fern_db)"
    by (simp add: fern2_kvs_def dict_get_def stored_def plain_fern_db_def plain_fern_def name_is_def
        assign_def insert_columns_def)
  have nm: "dict_get fern2_kvs ''name'' JNull = JStr ''fern''"
    by (simp add: fern2_kvs_def dict_get_def)
  from import_skips_existing_name[OF h1 h2 h3 h4, of "[]"]
  have loop: "migrate_loop numeric_affinity (\<lambda>i. 1000) 0 (empty_db, 0, []) [JObj fern_kvs, JObj fern2_kvs] =
          Inr (plain_fern_db, 1, [AlreadyExists (JStr ''fern'')])"
    by (simp add: nm)
  then have "migrate_from_localstorage numeric_affinity (\<lambda>i. 1000) empty_db
       (JObj [(''plants'', JArr [JObj fern_kvs, JObj fern2_kvs])]) =
     (plain_fern_db, 200, Report 1 [AlreadyExists (JStr ''fern'')])"
    by (simp add: migrate_from_localstorage_def)
  with h1 h2 h3 h4 loop show ?thesis by simp
qed

text \<open>
  C4 as stated fails: a record that has the name of a stored row and lacks a required
  field is reported as ``Missing required fields'', and one whose rules are a dict as
  ``Error processing plant''; neither gets an ``already exists'' entry.
\<close>

theorem import_skips_existing_name_counterexample:
  "list_ex (name_is (SText ''fern'')) (plants fern_db) \<and>
   migrate_from_localstorage numeric_affinity (\<lambda>i. 2000) fern_db
       (JObj [(''plants'', JArr [JObj name_only_kvs])]) =
     (fern_db, 200, Report 0 [MissingFields (JStr ''fern'')]) \<and>
   migrate_from_localstorage numeric_affinity (\<lambda>i. 2000) fern_db
       (JObj [(''plants'', JArr [JObj dict_rules_kvs])]) =
     (fern_db, 200, Report 0 [ProcessingError (JStr ''fern'') BindError])"
  by (simp add: migrate_from_localstorage_def migrate_record_obj import_accepts_iff
      required_fields_def name_only_kvs_def dict_rules_kvs_def dict_get_def import_value_def
      legacy_key_def insert_columns_def fern_db_def thick_fern_def name_is_def assign_def)

text \<open>
  C5 fails on the code. The \<^verbatim>\<open>except Exception\<close> of the loop is there to turn any failure
  of a record into an entry of \<^verbatim>\<open>errors\<close>, but it formats the entry with
  \<^verbatim>\<open>plant_data.get('name', 'unnamed')\<close>: for a record that is not a dict (here \<^verbatim>\<open>null\<close>) the
  handler itself raises, the loop is left before \<^verbatim>\<open>conn.commit()\<close>, the request is answered
  500 and the fern imported just before is not stored. The same batch without the \<^verbatim>\<open>null\<close>
  stores it.
\<close>

theorem import_aborts_on_non_dict:
  "migrate_from_localstorage numeric_affinity (\<lambda>i. 1000) empty_db
       (JObj [(''plants'', JArr [JObj fern_kvs, JNull])]) =
     (empty_db, 500, Failure (Exc AttributeError)) \<and>
   migrate_from_localstorage numeric_affinity (\<lambda>i. 1000) empty_db
       (JObj [(''plants'', JArr [JObj fern_kvs])]) =
     (plain_fern_db, 200, Report 1 [])"
  by (simp add: migrate_from_localstorage_def import_fern) (simp add: migrate_record_def)

text \<open>
  C6, as the code has it. The import accepts a record exactly when every required field
  is present and not \<^verbatim>\<open>null\<close>; \<^verbatim>\<open>create_plant\<close> accepts a dict exactly when every required
  field is present, \<^verbatim>\<open>null\<close> or not. So whatever the import accepts \<^verbatim>\<open>create_plant\<close> accepts,
  and the two agree on records with no \<^verbatim>\<open>null\<close> in a required field.
\<close>

theorem required_field_validations:
  "(import_accepts kvs \<longleftrightarrow>
      list_all (\<lambda>f. map_of kvs f \<noteq> None \<and> map_of kvs f \<noteq> Some JNull) required_fields) \<and>
   (create_accepts (JObj kvs) \<longleftrightarrow> list_all (\<lambda>f. map_of kvs f \<noteq> None) required_fields) \<and>
   (import_accepts kvs \<longrightarrow> create_accepts (JObj kvs)) \<and>
   (list_all (\<lambda>f. map_of kvs f \<noteq> Some JNull) required_fields \<longrightarrow>
      import_accepts kvs = create_accepts (JObj kvs))"
  unfolding import_accepts_iff create_accepts_obj
  by (auto simp: required_fields_def)

theorem required_field_validations_witness:
  "import_accepts fern_kvs \<and> create_accepts (JObj fern_kvs) \<and>
   list_all (\<lambda>f. map_of fern_kvs f \<noteq> Some JNull) required_fields \<and>
   import_accepts fern_kvs = create_accepts (JObj fern_kvs)"
proof -
  have h: "list_all (\<lambda>f. map_of fern_kvs f \<noteq> None \<and> map_of fern_kvs f \<noteq> Some JNull) required_fields"
    by (simp add: fern_kvs_def required_fields_def)
  have n: "list_all (\<lambda>f. map_of fern_kvs f \<noteq> Some JNull) required_fields"
    by (simp add: fern_kvs_def required_fields_def)
  from required_field_validations[of fern_kvs] h n show ?thesis by blast
qed

text \<open>
  C6 as stated fails: a record whose axiom is \<^verbatim>\<open>null\<close> passes the validation of
  \<^verbatim>\<open>create_plant\<close> and is rejected by the validation of the import.
\<close>

theorem required_field_validations_counterexample:
  "create_accepts (JObj null_axiom_kvs) \<and> \<not> import_accepts null_axiom_kvs"
  by (simp add: create_accepts_def import_accepts_def has_required_def mapped_data_def
      required_fields_def null_axiom_kvs_def dict_get_def)

text \<open>
  C7, as the code has it. A dict input that lacks a required field is answered 400 and
  nothing is written; the answer names the first required field that is missing, except
  for the empty dict, which is answered ``No JSON data provided''.
\<close>

theorem create_missing_field:
  assumes "list_ex (\<lambda>f. map_of kvs f = None) required_fields"
  shows "\<exists>field. find (\<lambda>f. map_of kvs f = None) required_fields = Some field \<and>
           create_plant aff ts d (JObj kvs) =
             (d, 400, Failure (if kvs = [] then NoJsonData else MissingField field))"
proof -
  from assms obtain field where f: "find (\<lambda>f. map_of kvs f = None) required_fields = Some field"
    using find_Some_iff_ex by blast
  then have "create_plant aff ts d (JObj kvs) =
             (d, 400, Failure (if kvs = [] then NoJsonData else MissingField field))"
    by (simp add: create_plant_def first_missing_obj)
  with f show ?thesis by blast
qed

theorem create_missing_field_witness:
  "list_ex (\<lambda>f. map_of [(''name'', JStr ''moss'')] f = None) required_fields \<and>
   create_plant numeric_affinity 2000 fern_db (JObj [(''name'', JStr ''moss'')]) =
     (fern_db, 400, Failure (MissingField ''axiom''))"
proof -
  have h: "list_ex (\<lambda>f. map_of [(''name'', JStr ''moss'')] f = None) required_fields"
    by (simp add: required_fields_def)
  from create_missing_field[OF h, of numeric_affinity 2000 fern_db] h show ?thesis
    by (simp add: required_fields_def)
qed

text \<open>
  C7 as stated fails on the empty dict: it lacks every required field, and the 400 it
  gets names none. (A body that is not a dict at all can fare worse: for a number,
  \<^verbatim>\<open>field not in data\<close> raises and the answer is 500.)
\<close>

theorem create_missing_field_counterexample:
  "list_ex (\<lambda>f. map_of [] f = None) required_fields \<and>
   create_plant numeric_affinity 2000 fern_db (JObj []) = (fern_db, 400, Failure NoJsonData) \<and>
   \<not> names_missing_field (snd (snd (create_plant numeric_affinity 2000 fern_db (JObj [])))) \<and>
   create_plant numeric_affinity 2000 fern_db (JInt 5) = (fern_db, 500, Failure (Exc TypeError))"
  by (simp add: required_fields_def create_plant_def)



text \<open>
  C9, as the code has it. \<^verbatim>\<open>get_plants\<close> returns all the stored rows, newest first by
  timestamp: a row appears before every row whose timestamp is smaller. The order of
  insertion does not enter.
\<close>

theorem get_plants_newest_first:
  "\<exists>rs. get_plants d = (200, Plants rs) \<and>
        mset rs = mset (plants d) \<and>
        newest_first rs \<and>
        (\<forall>i j. i < length rs \<and> j < length rs \<and>
               sql_less (cells (rs ! i) c_timestamp) (cells (rs ! j) c_timestamp) \<longrightarrow> j < i)"
  using newest_first_positions[OF newest_first_order_by]
  by (auto simp: get_plants_def mset_order_by newest_first_order_by)

theorem get_plants_newest_first_witness:
  "get_plants garden_db = (200, Plants [moss, thick_fern]) \<and>
   plants garden_db = [thick_fern, moss] \<and>
   (1::nat) < length [moss, thick_fern] \<and> (0::nat) < length [moss, thick_fern] \<and>
   sql_less (cells ([moss, thick_fern] ! 1) c_timestamp) (cells ([moss, thick_fern] ! 0) c_timestamp) \<and>
   newest_first [moss, thick_fern]"
proof -
  have g: "get_plants garden_db = (200, Plants [moss, thick_fern])"
    by (simp add: get_plants_def order_by_timestamp_desc_def garden_db_def thick_fern_def moss_def
        assign_def insert_columns_def)
  have l: "sql_less (cells thick_fern c_timestamp) (cells moss c_timestamp)"
    by (simp add: sql_less_def thick_fern_def moss_def assign_def insert_columns_def)
  from get_plants_newest_first[of garden_db] g have "newest_first [moss, thick_fern]"
    by auto
  with g l show ?thesis by (simp add: garden_db_def)
qed

text \<open>
  C9 as stated fails: the import keeps a timestamp the record brings, so a row inserted
  later can be older. Importing the fern and then a moss dated 500 into an empty table
  at time 1000 lists the fern first, though the moss was inserted after it.
\<close>

theorem get_plants_newest_first_counterexample:
  "migrate_from_localstorage numeric_affinity (\<lambda>i. 1000) empty_db
       (JObj [(''plants'', JArr [JObj fern_kvs, JObj backdated_moss_kvs])]) =
     (backdated_db, 200, Report 2 []) \<and>
   plants backdated_db = [plain_fern, backdated_moss] \<and>
   get_plants backdated_db = (200, Plants [plain_fern, backdated_moss])"
proof -
  have m: "migrate_from_localstorage numeric_affinity (\<lambda>i. 1000) empty_db
       (JObj [(''plants'', JArr [JObj fern_kvs, JObj backdated_moss_kvs])]) =
     (backdated_db, 200, Report 2 [])"
    using import_backdated_moss by (simp add: migrate_from_localstorage_def import_fern)
  have g: "get_plants backdated_db = (200, Plants [plain_fern, backdated_moss])"
    by (simp add: get_plants_def order_by_timestamp_desc_def backdated_db_def plain_fern_def
        backdated_moss_def assign_def insert_columns_def)
  from m g show ?thesis by (simp add: backdated_db_def)
qed

text \<open>
  C10. A POST /api/plants or a PUT /api/plants/{id} whose body is the empty JSON object
  is answered 400 ``No JSON data provided'' and writes nothing: an empty PUT does not
  even refresh the timestamp.
\<close>

theorem empty_body_rejected:
  "create_plant aff ts d (JObj []) = (d, 400, Failure NoJsonData) \<and>
   update_plant aff ts d plant_id (JObj []) = (d, 400, Failure NoJsonData)"
  by (simp add: create_plant_def update_plant_def)

end
